theory Spec2Isabelle
  imports Main "HOL-Library.AList"
begin

section \<open>JavaScript values used by the two bots\<close>

text \<open>
  The repository holds two schedulers with the same architecture:
  RemindBot (\<^verbatim>\<open>src/code1.js\<close>: \<^verbatim>\<open>TimeParser\<close>, \<^verbatim>\<open>ReminderManager\<close>) and
  ScheduleBot (\<^verbatim>\<open>src/code3.js\<close>: \<^verbatim>\<open>TimeParser\<close>, \<^verbatim>\<open>ScheduleManager\<close>).
  Both are embedded here. Where the two classes share a method name, the RemindBot
  definition carries the suffix \<open>_remind\<close> or the prefix \<open>ReminderManager_\<close> and the
  ScheduleBot one the suffix \<open>_schedule\<close> or the prefix \<open>ScheduleManager_\<close>; a field
  that both kinds of object have carries the prefix \<open>r_\<close> or \<open>s_\<close>.

  Modelling decisions that hold for the whole theory:
  \<^item> A JavaScript number that holds a timestamp, a duration or an id is an \<open>int\<close> or a
    \<open>nat\<close>. That is exact as long as the values stay below \<open>2 ^ 53\<close>.
  \<^item> A \<^verbatim>\<open>Date\<close> object is its time value, or \<open>None\<close> when it is an Invalid Date: a
    time value outside of \<open>\<plusminus> 8640000000000000\<close>. RemindBot calls \<^verbatim>\<open>toISOString()\<close> on its
    dates, which raises a \<^verbatim>\<open>RangeError\<close> on an Invalid Date, so its model carries the
    range. ScheduleBot only reads \<^verbatim>\<open>getTime()\<close> of dates at most 13 days and 112 hours
    after the start of the current day; its clock is taken to be one for which these
    dates are valid.
  \<^item> A string is a list of 8-bit characters; \<^verbatim>\<open>\s\<close> and \<^verbatim>\<open>trim\<close> see the six ASCII white
    space characters, \<^verbatim>\<open>toLowerCase\<close> lowers the letters A to Z.
  \<^item> \<^verbatim>\<open>Date.now()\<close> and \<^verbatim>\<open>new Date()\<close> are read once per call of a method: the argument
    \<open>now\<close>. Local time is the time of a zone with a fixed offset \<open>tz\<close> (in milliseconds)
    from UTC, so a day has 86400000 milliseconds.
  \<^item> A \<^verbatim>\<open>Map\<close> is an association list in insertion order, a \<^verbatim>\<open>Set\<close> a list in insertion
    order.
  \<^item> Every method runs to its end before the next one starts.
\<close>

subsection \<open>Strings\<close>

definition is_space :: "char \<Rightarrow> bool" where
  "is_space c \<longleftrightarrow> c \<in> set [CHR '' '', CHR 0x09, CHR 0x0A, CHR 0x0B, CHR 0x0C, CHR 0x0D]"

definition is_digit :: "char \<Rightarrow> bool" where
  "is_digit c \<longleftrightarrow> c \<in> set ''0123456789''"

definition trim :: "string \<Rightarrow> string" where
  "trim s = rev (dropWhile is_space (rev (dropWhile is_space s)))"

definition lower_char :: "char \<Rightarrow> char" where
  "lower_char c =
     (case map_of (zip ''ABCDEFGHIJKLMNOPQRSTUVWXYZ'' ''abcdefghijklmnopqrstuvwxyz'') c of
        None \<Rightarrow> c
      | Some d \<Rightarrow> d)"

definition toLowerCase :: "string \<Rightarrow> string" where
  "toLowerCase s = map lower_char s"

definition digit_value :: "char \<Rightarrow> int" where
  "digit_value c =
     (case map_of (zip ''0123456789'' [0, 1, 2, 3, 4, 5, 6, 7, 8, 9]) c of
        None \<Rightarrow> 0
      | Some d \<Rightarrow> d)"

text \<open>
  \<^verbatim>\<open>parseInt\<close> on the strings the parsers pass to it (a capture group of digits, or
  \<^verbatim>\<open>undefined\<close>): the value of the leading digits, \<open>None\<close> for \<^verbatim>\<open>NaN\<close>.
\<close>

definition parseInt :: "string option \<Rightarrow> int option" where
  "parseInt v =
     (case v of
        None \<Rightarrow> None
      | Some s \<Rightarrow>
          (let ds = takeWhile is_digit s
           in if ds = [] then None else Some (foldl (\<lambda>a c. 10 * a + digit_value c) 0 ds)))"

text \<open>\<^verbatim>\<open>x || d\<close> on a number: \<^verbatim>\<open>NaN\<close> and \<^verbatim>\<open>0\<close> are falsy.\<close>

definition or_default :: "int option \<Rightarrow> int \<Rightarrow> int" where
  "or_default x d = (case x of None \<Rightarrow> d | Some n \<Rightarrow> if n = 0 then d else n)"

text \<open>
  \<^verbatim>\<open>String.prototype.replace\<close> with a string pattern: only the first occurrence of the
  pattern is replaced. (The replacement strings of this program hold no \<^verbatim>\<open>$\<close>.)
\<close>

fun replace :: "string \<Rightarrow> string \<Rightarrow> string \<Rightarrow> string" where
  "replace pat rep [] = (if pat = [] then rep else [])"
| "replace pat rep (c # cs) =
     (if take (length pat) (c # cs) = pat then rep @ drop (length pat) (c # cs)
      else c # replace pat rep cs)"

subsection \<open>Regular expressions\<close>

text \<open>
  The patterns of both parsers are anchored (\<^verbatim>\<open>^...$\<close>) and built from literals, the
  classes \<^verbatim>\<open>\d\<close> and \<^verbatim>\<open>\s\<close> under a greedy counted repetition, sequence, ordered
  alternative, the greedy option \<^verbatim>\<open>?\<close> and numbered capture groups. \<open>rx\<close> lists the ways
  a pattern can match a prefix of the input in the order in which a backtracking matcher
  tries them; \<open>match\<close> takes the first one that reaches the end of the input.
\<close>

datatype cclass = Digit | Space

datatype regex =
    Lit string
  | Rep cclass nat "nat option"
  | Seq regex regex
  | Alt regex regex
  | Opt regex
  | Grp nat regex

type_synonym groups = "nat \<rightharpoonup> string"

definition in_class :: "cclass \<Rightarrow> char \<Rightarrow> bool" where
  "in_class k c = (case k of Digit \<Rightarrow> is_digit c | Space \<Rightarrow> is_space c)"

definition longest :: "cclass \<Rightarrow> nat option \<Rightarrow> string \<Rightarrow> nat" where
  "longest k hi s =
     (let n = length (takeWhile (in_class k) s)
      in case hi of None \<Rightarrow> n | Some h \<Rightarrow> min h n)"

fun rx :: "regex \<Rightarrow> string \<times> groups \<Rightarrow> (string \<times> groups) list" where
  "rx (Lit l) (s, g) = (if take (length l) s = l then [(drop (length l) s, g)] else [])"
| "rx (Rep k lo hi) (s, g) = map (\<lambda>n. (drop n s, g)) (rev [lo ..< Suc (longest k hi s)])"
| "rx (Seq a b) st = concat (map (rx b) (rx a st))"
| "rx (Alt a b) st = rx a st @ rx b st"
| "rx (Opt a) st = rx a st @ [st]"
| "rx (Grp n a) (s, g) =
     map (\<lambda>(s', g'). (s', g'(n \<mapsto> take (length s - length s') s))) (rx a (s, g))"

definition match :: "regex \<Rightarrow> string \<Rightarrow> groups option" where
  "match re s =
     (case filter (\<lambda>(rest, g). rest = []) (rx re (s, Map.empty)) of
        [] \<Rightarrow> None
      | (rest, g) # more \<Rightarrow> Some g)"

fun seqs :: "regex list \<Rightarrow> regex" where
  "seqs [] = Lit []"
| "seqs [r] = r"
| "seqs (r # rs) = Seq r (seqs rs)"

fun alts :: "string list \<Rightarrow> regex" where
  "alts [] = Lit []"
| "alts [l] = Lit l"
| "alts (l # ls) = Alt (Lit l) (alts ls)"

text \<open>
  The part every clock-time pattern ends with,
  \<^verbatim>\<open>(\d{1,2})(?::(\d{2}))?\s*(am|pm)?\<close>, with its three groups numbered from \<open>k\<close>.
\<close>

definition clock_re :: "nat \<Rightarrow> regex" where
  "clock_re k =
     seqs [Grp k (Rep Digit 1 (Some 2)),
           Opt (Seq (Lit '':'') (Grp (k + 1) (Rep Digit 2 (Some 2)))),
           Rep Space 0 None,
           Opt (Grp (k + 2) (alts [''am'', ''pm'']))]"

subsection \<open>Clock and calendar\<close>

definition msPerDay :: int where
  "msPerDay = 86400000"

text \<open>The timestamp of the local midnight that starts the day of \<open>now\<close>.\<close>

definition startOfDay :: "int \<Rightarrow> int \<Rightarrow> int" where
  "startOfDay tz now = now - (now + tz) mod msPerDay"

text \<open>
  \<^verbatim>\<open>new Date(now.getFullYear(), now.getMonth(), now.getDate() + days, hour, minute, 0, 0)
  .getTime()\<close>: the constructor carries an hour above 23 or a minute above 59 over into
  the following hours and days.
\<close>

definition dateAt :: "int \<Rightarrow> int \<Rightarrow> int \<Rightarrow> int \<Rightarrow> int \<Rightarrow> int" where
  "dateAt tz now days hour minute =
     startOfDay tz now + days * msPerDay + hour * 3600000 + minute * 60000"

text \<open>
  \<^verbatim>\<open>new Date(value)\<close>: the time value is clipped, and a value outside of the range of
  100000000 days around 1 January 1970 gives an Invalid Date.
\<close>

definition maxDate :: int where
  "maxDate = 8640000000000000"

definition newDate :: "int \<Rightarrow> int option" where
  "newDate t = (if - maxDate \<le> t \<and> t \<le> maxDate then Some t else None)"

text \<open>\<^verbatim>\<open>now.getDay()\<close> (0 is Sunday; 1 January 1970 was a Thursday) and \<^verbatim>\<open>now.getHours()\<close>.\<close>

definition getDay :: "int \<Rightarrow> int \<Rightarrow> int" where
  "getDay tz now = ((now + tz) div msPerDay + 4) mod 7"

definition getHours :: "int \<Rightarrow> int \<Rightarrow> int" where
  "getHours tz now = ((now + tz) mod msPerDay) div 3600000"

definition getMinutes :: "int \<Rightarrow> int \<Rightarrow> int" where
  "getMinutes tz now = ((now + tz) mod 3600000) div 60000"

section \<open>ScheduleBot: TimeParser\<close>

datatype error =
    INVALID_FORMAT | PARSE_FAILED | LIMIT_REACHED | NOT_FOUND | UNAUTHORIZED
  | IO_ERROR | RANGE_ERROR | TYPE_ERROR | NOT_A_NUMBER

record clock =
  hour :: int
  minute :: int

text \<open>
  The object \<^verbatim>\<open>parse\<close> returns has the field \<^verbatim>\<open>type\<close> (\<^verbatim>\<open>'once'\<close>, \<^verbatim>\<open>'recurring'\<close>,
  \<^verbatim>\<open>'interval'\<close>), the field \<^verbatim>\<open>nextRun\<close>, and fields that depend on the type:
  \<^verbatim>\<open>interval\<close> (\<^verbatim>\<open>'daily'\<close> or \<^verbatim>\<open>'weekly'\<close>), \<^verbatim>\<open>day\<close> and \<^verbatim>\<open>time\<close> for a recurring
  schedule, \<^verbatim>\<open>intervalMs\<close> for an interval schedule.
\<close>

datatype period = Daily | Weekly string

datatype kind = Once | Recurring period clock | Interval int

record timeData =
  kind :: kind
  nextRun :: int

definition daily_re :: regex where
  "daily_re =
     seqs [Lit ''daily'', Rep Space 1 None, Opt (Seq (Lit ''at'') (Rep Space 1 None)),
           clock_re 1]"

definition weekly_re :: regex where
  "weekly_re =
     seqs [Lit ''weekly'', Rep Space 1 None,
           Grp 1 (alts [''monday'', ''tuesday'', ''wednesday'', ''thursday'', ''friday'',
                        ''saturday'', ''sunday'']),
           Rep Space 1 None, clock_re 2]"

definition tomorrow_re_schedule :: regex where
  "tomorrow_re_schedule = seqs [Lit ''tomorrow'', Rep Space 1 None, clock_re 1]"

definition today_re :: regex where
  "today_re = seqs [Lit ''today'', Rep Space 1 None, clock_re 1]"

definition interval_re :: regex where
  "interval_re =
     seqs [Lit ''every'', Rep Space 1 None, Grp 1 (Rep Digit 1 None), Rep Space 1 None,
           Grp 2 (alts [''hour'', ''hours'', ''minute'', ''minutes''])]"

text \<open>
  \<^verbatim>\<open>parseTime(hour, minute, meridiem)\<close>. The result is \<open>None\<close> when \<^verbatim>\<open>parseInt\<close> yields
  \<^verbatim>\<open>NaN\<close> for the hour or the minute.
\<close>

definition parseTime :: "string option \<Rightarrow> string option \<Rightarrow> string option \<Rightarrow> clock option" where
  "parseTime hour_s minute_s meridiem =
     (case (parseInt hour_s, parseInt minute_s) of
        (Some h, Some m) \<Rightarrow>
          Some \<lparr>hour =
                  (case meridiem of
                     None \<Rightarrow> h
                   | Some mer \<Rightarrow>
                       if mer = [] then h
                       else if toLowerCase mer = ''pm'' \<and> h \<noteq> 12 then h + 12
                       else if toLowerCase mer = ''am'' \<and> h = 12 then 0
                       else h),
                minute = m\<rparr>
      | _ \<Rightarrow> None)"

text \<open>\<^verbatim>\<open>minute || '0'\<close>.\<close>

definition or_zero_string :: "string option \<Rightarrow> string option" where
  "or_zero_string v = (case v of None \<Rightarrow> Some ''0'' | Some s \<Rightarrow> if s = [] then Some ''0'' else Some s)"

definition getNextDailyRun :: "int \<Rightarrow> int \<Rightarrow> clock \<Rightarrow> int" where
  "getNextDailyRun tz now time =
     (let next = dateAt tz now 0 (hour time) (minute time)
      in if next \<le> now then next + msPerDay else next)"

text \<open>\<^verbatim>\<open>days.indexOf(name)\<close>: the position of the name, \<open>-1\<close> when it is absent.\<close>

fun indexOf :: "string list \<Rightarrow> string \<Rightarrow> int" where
  "indexOf [] x = -1"
| "indexOf (y # ys) x = (if x = y then 0 else let i = indexOf ys x in if i < 0 then -1 else i + 1)"

definition days :: "string list" where
  "days = [''sunday'', ''monday'', ''tuesday'', ''wednesday'', ''thursday'', ''friday'',
           ''saturday'']"

definition getNextWeeklyRun :: "int \<Rightarrow> int \<Rightarrow> string \<Rightarrow> clock \<Rightarrow> int" where
  "getNextWeeklyRun tz now dayName time =
     (let targetDay = indexOf days (toLowerCase dayName);
          currentDay = getDay tz now;
          daysUntil = targetDay - currentDay;
          daysUntil' =
            (if daysUntil < 0 \<or> (daysUntil = 0 \<and> getHours tz now \<ge> hour time)
             then daysUntil + 7 else daysUntil)
      in dateAt tz now daysUntil' (hour time) (minute time))"

definition getTodayAt :: "int \<Rightarrow> int \<Rightarrow> clock \<Rightarrow> int" where
  "getTodayAt tz now time = dateAt tz now 0 (hour time) (minute time)"

definition getTomorrowAt :: "int \<Rightarrow> int \<Rightarrow> clock \<Rightarrow> int" where
  "getTomorrowAt tz now time = dateAt tz now 1 (hour time) (minute time)"

text \<open>
  \<^verbatim>\<open>TimeParser.parse\<close> of ScheduleBot. The patterns are tried in the order of the source.
  A mandatory group that is \<^verbatim>\<open>undefined\<close> would raise a \<^verbatim>\<open>TypeError\<close> at
  \<^verbatim>\<open>day.toLowerCase()\<close> or \<^verbatim>\<open>unit.startsWith\<close>, and a \<^verbatim>\<open>NaN\<close> from \<^verbatim>\<open>parseInt\<close> would
  end up in \<^verbatim>\<open>nextRun\<close>; the model ends these paths with \<open>TYPE_ERROR\<close> and
  \<open>NOT_A_NUMBER\<close>. The debug line of the parser is console output only and is not part
  of the value.
\<close>

definition parse_schedule :: "int \<Rightarrow> int \<Rightarrow> string \<Rightarrow> error + timeData" where
  "parse_schedule tz now input =
     (let cleaned = toLowerCase (trim input) in
      case match daily_re cleaned of
        Some g \<Rightarrow>
          (case parseTime (g 1) (or_zero_string (g 2)) (g 3) of
             None \<Rightarrow> Inl NOT_A_NUMBER
           | Some time \<Rightarrow>
               Inr \<lparr>kind = Recurring Daily time, nextRun = getNextDailyRun tz now time\<rparr>)
      | None \<Rightarrow>
      case match weekly_re cleaned of
        Some g \<Rightarrow>
          (case parseTime (g 2) (or_zero_string (g 3)) (g 4) of
             None \<Rightarrow> Inl NOT_A_NUMBER
           | Some time \<Rightarrow>
               (case g 1 of
                  None \<Rightarrow> Inl TYPE_ERROR
                | Some day \<Rightarrow>
                    Inr \<lparr>kind = Recurring (Weekly (toLowerCase day)) time,
                         nextRun = getNextWeeklyRun tz now day time\<rparr>))
      | None \<Rightarrow>
      case match tomorrow_re_schedule cleaned of
        Some g \<Rightarrow>
          (case parseTime (g 1) (or_zero_string (g 2)) (g 3) of
             None \<Rightarrow> Inl NOT_A_NUMBER
           | Some time \<Rightarrow> Inr \<lparr>kind = Once, nextRun = getTomorrowAt tz now time\<rparr>)
      | None \<Rightarrow>
      case match today_re cleaned of
        Some g \<Rightarrow>
          (case parseTime (g 1) (or_zero_string (g 2)) (g 3) of
             None \<Rightarrow> Inl NOT_A_NUMBER
           | Some time \<Rightarrow>
               Inr \<lparr>kind = Once,
                    nextRun =
                      (if getTodayAt tz now time < now then getTomorrowAt tz now time
                       else getTodayAt tz now time)\<rparr>)
      | None \<Rightarrow>
      case match interval_re cleaned of
        Some g \<Rightarrow>
          (case g 2 of
             None \<Rightarrow> Inl TYPE_ERROR
           | Some unit \<Rightarrow>
               (case parseInt (g 1) of
                  None \<Rightarrow> Inl NOT_A_NUMBER
                | Some amount \<Rightarrow>
                    let ms = (if take 4 unit = ''hour'' then amount * 3600000
                              else amount * 60000)
                    in Inr \<lparr>kind = Interval ms, nextRun = now + ms\<rparr>))
      | None \<Rightarrow> Inl INVALID_FORMAT)"

section \<open>RemindBot: TimeParser\<close>

record parsed =
  timestamp :: int
  interval :: "int option"
  isRecurring :: bool

definition relative_re :: regex where
  "relative_re =
     seqs [Lit ''in'', Rep Space 1 None, Grp 1 (Rep Digit 1 None), Rep Space 0 None,
           Grp 2 (alts [''second'', ''sec'', ''s'', ''minute'', ''min'', ''m'', ''hour'', ''hr'',
                        ''h'', ''day'', ''d'', ''week'', ''w'']),
           Opt (Lit ''s'')]"

definition recurring_re :: regex where
  "recurring_re =
     seqs [Lit ''every'', Rep Space 1 None, Opt (Grp 1 (Rep Digit 1 None)), Rep Space 0 None,
           Grp 2 (alts [''second'', ''minute'', ''hour'', ''day'', ''week'']),
           Opt (Lit ''s''),
           Opt (seqs [Rep Space 1 None, Lit ''at'', Rep Space 1 None, clock_re 3])]"

definition tomorrow_re_remind :: regex where
  "tomorrow_re_remind =
     seqs [Lit ''tomorrow'', Rep Space 1 None, Lit ''at'', Rep Space 1 None, clock_re 1]"

definition absolute_re :: regex where
  "absolute_re = seqs [Lit ''at'', Rep Space 1 None, clock_re 1]"

definition multipliers :: "string \<rightharpoonup> int" where
  "multipliers =
     map_of [(''second'', 1000), (''sec'', 1000), (''s'', 1000),
             (''minute'', 60000), (''min'', 60000), (''m'', 60000),
             (''hour'', 3600000), (''hr'', 3600000), (''h'', 3600000),
             (''day'', 86400000), (''d'', 86400000),
             (''week'', 604800000), (''w'', 604800000)]"

definition calculateTimeToday ::
  "int \<Rightarrow> int \<Rightarrow> int \<Rightarrow> int \<Rightarrow> string option \<Rightarrow> int option" where
  "calculateTimeToday tz now h m meridiem =
     (let adjustedHour =
            (case meridiem of
               None \<Rightarrow> h
             | Some mer \<Rightarrow>
                 if mer = [] then h
                 else if toLowerCase mer = ''pm'' \<and> h \<noteq> 12 then h + 12
                 else if toLowerCase mer = ''am'' \<and> h = 12 then 0
                 else h)
      in newDate (dateAt tz now 0 adjustedHour m))"

definition calculateTimeTomorrow ::
  "int \<Rightarrow> int \<Rightarrow> int \<Rightarrow> int \<Rightarrow> string option \<Rightarrow> int option" where
  "calculateTimeTomorrow tz now h m meridiem =
     (case calculateTimeToday tz now h m meridiem of
        None \<Rightarrow> None
      | Some t \<Rightarrow> newDate (t + 86400000))"

text \<open>
  \<^verbatim>\<open>TimeParser.parse\<close> of RemindBot. Each branch ends with a debug line that calls
  \<^verbatim>\<open>timestamp.toISOString()\<close>, which raises a \<^verbatim>\<open>RangeError\<close> on an Invalid Date: that is
  where a timestamp outside of the Date range ends, and so does a \<^verbatim>\<open>NaN\<close> from
  \<^verbatim>\<open>parseInt\<close> or from a unit missing in the table. A comparison with an Invalid Date is
  false. The text of the debug lines is not part of the value.
\<close>

definition parse_remind :: "int \<Rightarrow> int \<Rightarrow> string \<Rightarrow> error + parsed" where
  "parse_remind tz now input =
     (let cleaned = toLowerCase (trim input) in
      case match relative_re cleaned of
        Some g \<Rightarrow>
          (case (parseInt (g 1), Option.bind (g 2) multipliers) of
             (Some amount, Some mult) \<Rightarrow>
               (case newDate (now + amount * mult) of
                  None \<Rightarrow> Inl RANGE_ERROR
                | Some t \<Rightarrow> Inr \<lparr>timestamp = t, interval = None, isRecurring = False\<rparr>)
           | _ \<Rightarrow> Inl RANGE_ERROR)
      | None \<Rightarrow>
      case match recurring_re cleaned of
        Some g \<Rightarrow>
          (case Option.bind (g 2) multipliers of
             None \<Rightarrow> Inl RANGE_ERROR
           | Some mult \<Rightarrow>
               let ival = or_default (parseInt (g 1)) 1 * mult in
               if g 3 \<noteq> None \<and> g 3 \<noteq> Some [] then
                 (case parseInt (g 3) of
                    None \<Rightarrow> Inl RANGE_ERROR
                  | Some h \<Rightarrow>
                      (case calculateTimeToday tz now h (or_default (parseInt (g 4)) 0) (g 5) of
                         None \<Rightarrow> Inl RANGE_ERROR
                       | Some t \<Rightarrow>
                           (case (if t < now then newDate (t + ival) else Some t) of
                              None \<Rightarrow> Inl RANGE_ERROR
                            | Some t' \<Rightarrow>
                                Inr \<lparr>timestamp = t', interval = Some ival,
                                     isRecurring = True\<rparr>)))
               else
                 (case newDate (now + ival) of
                    None \<Rightarrow> Inl RANGE_ERROR
                  | Some t \<Rightarrow> Inr \<lparr>timestamp = t, interval = Some ival, isRecurring = True\<rparr>))
      | None \<Rightarrow>
      case match tomorrow_re_remind cleaned of
        Some g \<Rightarrow>
          (case parseInt (g 1) of
             None \<Rightarrow> Inl RANGE_ERROR
           | Some h \<Rightarrow>
               (case calculateTimeTomorrow tz now h (or_default (parseInt (g 2)) 0) (g 3) of
                  None \<Rightarrow> Inl RANGE_ERROR
                | Some t \<Rightarrow> Inr \<lparr>timestamp = t, interval = None, isRecurring = False\<rparr>))
      | None \<Rightarrow>
      case match absolute_re cleaned of
        Some g \<Rightarrow>
          (case parseInt (g 1) of
             None \<Rightarrow> Inl RANGE_ERROR
           | Some h \<Rightarrow>
               (case calculateTimeToday tz now h (or_default (parseInt (g 2)) 0) (g 3) of
                  None \<Rightarrow> Inl RANGE_ERROR
                | Some t \<Rightarrow>
                    (case (if t < now then newDate (t + 86400000) else Some t) of
                       None \<Rightarrow> Inl RANGE_ERROR
                     | Some t' \<Rightarrow>
                         Inr \<lparr>timestamp = t', interval = None, isRecurring = False\<rparr>)))
      | None \<Rightarrow> Inl PARSE_FAILED)"

section \<open>Effects, Maps and Sets\<close>

text \<open>
  What a method does besides changing the store is recorded as a list of effects in the
  order in which they happen: a line of the \<^verbatim>\<open>log\<close> utility with its level and its
  component tag, an event of the \<^verbatim>\<open>EventEmitter\<close> with its name and its reminder, a
  message sent to a channel (recorded with the id of the schedule it is sent for, then
  the channel and the text). The environment decides whether \<^verbatim>\<open>fs.writeFile\<close> succeeds
  (\<open>disk_ok\<close>) and whether fetching a channel and sending to it succeeds (\<open>client\<close>).
\<close>

datatype level = Info | Success | Error | Warn

text \<open>\<^verbatim>\<open>Set.add\<close>; \<^verbatim>\<open>Set.delete\<close> is \<open>removeAll\<close>, \<^verbatim>\<open>Set.size\<close> is \<open>length\<close>.\<close>

definition set_add :: "'a \<Rightarrow> 'a list \<Rightarrow> 'a list" where
  "set_add x xs = (if x \<in> set xs then xs else xs @ [x])"

text \<open>\<^verbatim>\<open>index.get(key) || new Set()\<close>.\<close>

definition get_set :: "('k \<times> 'a list) list \<Rightarrow> 'k \<Rightarrow> 'a list" where
  "get_set index k = (case map_of index k of None \<Rightarrow> [] | Some xs \<Rightarrow> xs)"

text \<open>
  \<^verbatim>\<open>const set = index.get(key); if (set) set.delete(x)\<close>: the set is changed in place, and
  nothing happens when the key has no set.
\<close>

definition index_delete :: "'k \<Rightarrow> 'a \<Rightarrow> ('k \<times> 'a list) list \<Rightarrow> ('k \<times> 'a list) list" where
  "index_delete k x index =
     (case map_of index k of
        None \<Rightarrow> index
      | Some xs \<Rightarrow> AList.update k (removeAll x xs) index)"

section \<open>RemindBot: ReminderManager\<close>

record reminder = parsed +
  r_id :: nat
  userId :: string
  r_channelId :: string
  r_message :: string
  r_createdAt :: int
  triggered :: bool

datatype effect =
    Log level string
  | Emit string reminder
  | Send nat string string

record ReminderManager =
  reminders :: "(nat \<times> reminder) list"
  userReminders :: "(string \<times> nat list) list"
  nextId_remind :: nat

definition ReminderManager_new :: ReminderManager where
  "ReminderManager_new = \<lparr>reminders = [], userReminders = [], nextId_remind = 1\<rparr>"

definition maxRemindersPerUser :: nat where
  "maxRemindersPerUser = 25"

text \<open>\<^verbatim>\<open>save\<close>: the failure is logged and thrown again.\<close>

definition ReminderManager_save :: "bool \<Rightarrow> ReminderManager \<Rightarrow> (error + unit) \<times> effect list" where
  "ReminderManager_save disk_ok st =
     (if disk_ok then (Inr (), [Log Info ''STORAGE''])
      else (Inl IO_ERROR, [Log Error ''STORAGE'']))"

definition ReminderManager_create ::
  "int \<Rightarrow> int \<Rightarrow> bool \<Rightarrow> string \<Rightarrow> string \<Rightarrow> string \<Rightarrow> string \<Rightarrow> ReminderManager
     \<Rightarrow> (error + reminder) \<times> ReminderManager \<times> effect list" where
  "ReminderManager_create tz now disk_ok user channel message timeString st =
     (let userReminderSet = get_set (userReminders st) user in
      if length userReminderSet \<ge> maxRemindersPerUser
      then (Inl LIMIT_REACHED, st, [Log Error ''MANAGER''])
      else
        case parse_remind tz now timeString of
          Inl e \<Rightarrow> (Inl e, st, [Log Error ''MANAGER''])
        | Inr p \<Rightarrow>
            let rem = \<lparr>timestamp = timestamp p, interval = interval p,
                       isRecurring = isRecurring p, r_id = nextId_remind st, userId = user,
                       r_channelId = channel, r_message = message, r_createdAt = now,
                       triggered = False\<rparr>;
                st' = \<lparr>reminders = AList.update (r_id rem) rem (reminders st),
                       userReminders =
                         AList.update user (set_add (r_id rem) userReminderSet)
                           (userReminders st),
                       nextId_remind = nextId_remind st + 1\<rparr>
            in case ReminderManager_save disk_ok st' of
                 (Inl e, fx) \<Rightarrow> (Inl e, st', fx @ [Log Error ''MANAGER''])
               | (Inr u, fx) \<Rightarrow>
                   (Inr rem, st', fx @ [Log Success ''MANAGER'', Emit ''reminder:created'' rem]))"

definition ReminderManager_delete ::
  "bool \<Rightarrow> nat \<Rightarrow> string \<Rightarrow> ReminderManager
     \<Rightarrow> (error + reminder) \<times> ReminderManager \<times> effect list" where
  "ReminderManager_delete disk_ok reminderId user st =
     (case map_of (reminders st) reminderId of
        None \<Rightarrow> (Inl NOT_FOUND, st, [])
      | Some rem \<Rightarrow>
          if userId rem \<noteq> user then (Inl UNAUTHORIZED, st, [])
          else
            let st' = st\<lparr>reminders := AList.delete reminderId (reminders st),
                         userReminders := index_delete user reminderId (userReminders st)\<rparr>
            in case ReminderManager_save disk_ok st' of
                 (Inl e, fx) \<Rightarrow> (Inl e, st', fx)
               | (Inr u, fx) \<Rightarrow>
                   (Inr rem, st', fx @ [Log Success ''MANAGER'', Emit ''reminder:deleted'' rem]))"

definition ReminderManager_list :: "string \<Rightarrow> ReminderManager \<Rightarrow> reminder list" where
  "ReminderManager_list user st =
     sort_key timestamp (List.map_filter (map_of (reminders st)) (get_set (userReminders st) user))"

text \<open>
  \<^verbatim>\<open>check\<close>, first loop. A reminder is due when it is not marked as triggered and its
  timestamp is at or before \<open>now\<close>. A due reminder is pushed to \<^verbatim>\<open>triggered\<close> and changed
  in place: a recurring one with a truthy interval gets a new timestamp, any other one
  is marked. The array holds the changed objects.

  After a recurring reminder has got its new timestamp, the debug line calls
  \<^verbatim>\<open>new Date(reminder.timestamp).toISOString()\<close>. When the new timestamp is outside of
  the Date range this raises a \<^verbatim>\<open>RangeError\<close> and the loop ends there: the reminders
  before it and the reminder itself are changed, the ones after it are not looked at.
  The last component of the result says whether that happened.
\<close>

definition due_remind :: "int \<Rightarrow> reminder \<Rightarrow> bool" where
  "due_remind now rem \<longleftrightarrow> \<not> triggered rem \<and> timestamp rem \<le> now"

definition reschedules :: "reminder \<Rightarrow> bool" where
  "reschedules rem \<longleftrightarrow>
     isRecurring rem \<and> (case interval rem of None \<Rightarrow> False | Some i \<Rightarrow> i \<noteq> 0)"

definition fire :: "int \<Rightarrow> reminder \<Rightarrow> reminder" where
  "fire now rem =
     (if reschedules rem then rem\<lparr>timestamp := now + or_default (interval rem) 0\<rparr>
      else rem\<lparr>triggered := True\<rparr>)"

fun check_mark ::
  "int \<Rightarrow> (nat \<times> reminder) list
     \<Rightarrow> (nat \<times> reminder) list \<times> reminder list \<times> effect list \<times> bool" where
  "check_mark now [] = ([], [], [], False)"
| "check_mark now ((i, rem) # rest) =
     (if due_remind now rem
      then
        if reschedules rem \<and> newDate (timestamp (fire now rem)) = None
        then ((i, fire now rem) # rest, [fire now rem], [], True)
        else
          (case check_mark now rest of
             (rest', trig, fx, thrown) \<Rightarrow>
               ((i, fire now rem) # rest', fire now rem # trig,
                (if reschedules rem then [Log Info ''MANAGER''] else []) @ fx, thrown))
      else
        (case check_mark now rest of
           (rest', trig, fx, thrown) \<Rightarrow> ((i, rem) # rest', trig, fx, thrown)))"

text \<open>
  \<^verbatim>\<open>check\<close>, second loop: every marked reminder that is not recurring is deleted from the
  set of its user and from the primary map.
\<close>

fun check_sweep :: "(nat \<times> reminder) list \<Rightarrow> ReminderManager \<Rightarrow> ReminderManager" where
  "check_sweep [] st = st"
| "check_sweep ((i, rem) # rest) st =
     check_sweep rest
       (if triggered rem \<and> \<not> isRecurring rem
        then st\<lparr>userReminders := index_delete (userId rem) i (userReminders st),
                reminders := AList.delete i (reminders st)\<rparr>
        else st)"

text \<open>
  \<^verbatim>\<open>check\<close>. When the first loop ends with the \<^verbatim>\<open>RangeError\<close>, the method ends with it:
  there is no second loop, no save and no event. Otherwise the events are emitted after
  the save, and a save that fails ends the method before them.
\<close>

definition ReminderManager_check ::
  "int \<Rightarrow> bool \<Rightarrow> ReminderManager \<Rightarrow> (error + reminder list) \<times> ReminderManager \<times> effect list" where
  "ReminderManager_check now disk_ok st =
     (case check_mark now (reminders st) of
        (marked, trig, fx, thrown) \<Rightarrow>
          if thrown then (Inl RANGE_ERROR, st\<lparr>reminders := marked\<rparr>, fx)
          else
            let st' = check_sweep marked (st\<lparr>reminders := marked\<rparr>) in
            if trig = [] then (Inr [], st', fx)
            else
              case ReminderManager_save disk_ok st' of
                (Inl e, sfx) \<Rightarrow> (Inl e, st', fx @ sfx)
              | (Inr u, sfx) \<Rightarrow>
                  (Inr trig, st', fx @ sfx @ map (Emit ''reminder:trigger'') trig))"

section \<open>ScheduleBot: ScheduleManager\<close>

text \<open>
  The schedule object is built as \<^verbatim>\<open>{id, channelId, message, createdBy, createdAt,
  enabled: true, ...timeData}\<close>. Both \<^verbatim>\<open>set\<close> calls of the source store an object under
  its own id, so the id names the object an entry of \<^verbatim>\<open>due\<close> refers to.
\<close>

record schedule = timeData +
  s_id :: nat
  s_channelId :: string
  s_message :: string
  createdBy :: string
  s_createdAt :: int
  enabled :: bool

record ScheduleManager =
  schedules :: "(nat \<times> schedule) list"
  channelSchedules :: "(string \<times> nat list) list"
  nextId_schedule :: nat

definition ScheduleManager_new :: ScheduleManager where
  "ScheduleManager_new = \<lparr>schedules = [], channelSchedules = [], nextId_schedule = 1\<rparr>"

definition maxSchedulesPerChannel :: nat where
  "maxSchedulesPerChannel = 20"

text \<open>\<^verbatim>\<open>save\<close>: the failure is logged and not thrown again.\<close>

definition ScheduleManager_save :: "bool \<Rightarrow> ScheduleManager \<Rightarrow> effect list" where
  "ScheduleManager_save disk_ok st =
     (if disk_ok then [Log Info ''STORAGE''] else [Log Error ''STORAGE''])"

definition ScheduleManager_create ::
  "int \<Rightarrow> int \<Rightarrow> bool \<Rightarrow> string \<Rightarrow> string \<Rightarrow> string \<Rightarrow> string \<Rightarrow> ScheduleManager
     \<Rightarrow> (error + schedule) \<times> ScheduleManager \<times> effect list" where
  "ScheduleManager_create tz now disk_ok channel message timeString creator st =
     (let channelSet = get_set (channelSchedules st) channel in
      if length channelSet \<ge> maxSchedulesPerChannel
      then (Inl LIMIT_REACHED, st, [Log Error ''MANAGER''])
      else
        case parse_schedule tz now timeString of
          Inl e \<Rightarrow> (Inl e, st, [Log Error ''MANAGER''])
        | Inr timeData \<Rightarrow>
            let sch = \<lparr>kind = kind timeData, nextRun = nextRun timeData,
                       s_id = nextId_schedule st, s_channelId = channel, s_message = message,
                       createdBy = creator, s_createdAt = now, enabled = True\<rparr>;
                st' = \<lparr>schedules = AList.update (s_id sch) sch (schedules st),
                       channelSchedules =
                         AList.update channel (set_add (s_id sch) channelSet)
                           (channelSchedules st),
                       nextId_schedule = nextId_schedule st + 1\<rparr>
            in (Inr sch, st', ScheduleManager_save disk_ok st' @ [Log Success ''MANAGER'']))"

definition ScheduleManager_delete ::
  "bool \<Rightarrow> nat \<Rightarrow> string \<Rightarrow> ScheduleManager
     \<Rightarrow> (error + schedule) \<times> ScheduleManager \<times> effect list" where
  "ScheduleManager_delete disk_ok scheduleId user st =
     (case map_of (schedules st) scheduleId of
        None \<Rightarrow> (Inl NOT_FOUND, st, [])
      | Some sch \<Rightarrow>
          if createdBy sch \<noteq> user then (Inl UNAUTHORIZED, st, [])
          else
            let st' = st\<lparr>schedules := AList.delete scheduleId (schedules st),
                         channelSchedules :=
                           index_delete (s_channelId sch) scheduleId (channelSchedules st)\<rparr>
            in (Inr sch, st', ScheduleManager_save disk_ok st' @ [Log Success ''MANAGER'']))"

definition ScheduleManager_list :: "string \<Rightarrow> ScheduleManager \<Rightarrow> schedule list" where
  "ScheduleManager_list channel st =
     sort_key nextRun
       (filter enabled
          (List.map_filter (map_of (schedules st)) (get_set (channelSchedules st) channel)))"

text \<open>
  \<^verbatim>\<open>processMessage\<close>. The three strings that \<^verbatim>\<open>toLocaleDateString()\<close>,
  \<^verbatim>\<open>toLocaleTimeString()\<close> and \<^verbatim>\<open>toLocaleDateString('en-US', {weekday: 'long'})\<close> give
  at the moment of sending come from the environment.
\<close>

record locale_now =
  date_string :: string
  time_string :: string
  day_string :: string

definition processMessage :: "locale_now \<Rightarrow> string \<Rightarrow> string" where
  "processMessage loc template =
     replace ''{day}'' (day_string loc)
       (replace ''{time}'' (time_string loc)
          (replace ''{date}'' (date_string loc) template))"

text \<open>
  \<^verbatim>\<open>check\<close>: the body of the \<^verbatim>\<open>try\<close> block after a successful send. A schedule of type
  \<^verbatim>\<open>'once'\<close> is deleted from both maps; the other ones are changed in place.
\<close>

definition bump :: "int \<Rightarrow> schedule \<Rightarrow> schedule" where
  "bump now sch =
     (case kind sch of
        Once \<Rightarrow> sch
      | Recurring Daily time \<Rightarrow> sch\<lparr>nextRun := nextRun sch + 86400000\<rparr>
      | Recurring (Weekly day) time \<Rightarrow> sch\<lparr>nextRun := nextRun sch + 604800000\<rparr>
      | Interval ms \<Rightarrow> sch\<lparr>nextRun := now + ms\<rparr>)"

definition settle :: "int \<Rightarrow> schedule \<Rightarrow> ScheduleManager \<Rightarrow> ScheduleManager" where
  "settle now sch st =
     (case kind sch of
        Once \<Rightarrow>
          st\<lparr>schedules := AList.delete (s_id sch) (schedules st),
             channelSchedules :=
               index_delete (s_channelId sch) (s_id sch) (channelSchedules st)\<rparr>
      | _ \<Rightarrow> st\<lparr>schedules := AList.map_entry (s_id sch) (bump now) (schedules st)\<rparr>)"

text \<open>
  The loop over \<^verbatim>\<open>due\<close>, one schedule after the other. \<open>client sch\<close> says whether
  fetching the channel of \<open>sch\<close> and sending to it succeeds; when it fails the error is
  logged and the schedule is left as it is.
\<close>

fun process_due ::
  "int \<Rightarrow> locale_now \<Rightarrow> (schedule \<Rightarrow> bool) \<Rightarrow> schedule list \<Rightarrow> ScheduleManager
     \<Rightarrow> ScheduleManager \<times> effect list" where
  "process_due now loc client [] st = (st, [])"
| "process_due now loc client (sch # rest) st =
     (if client sch
      then
        (case process_due now loc client rest (settle now sch st) of
           (st', fx) \<Rightarrow>
             (st', [Send (s_id sch) (s_channelId sch) (processMessage loc (s_message sch)),
                    Log Success ''MANAGER''] @ fx))
      else
        (case process_due now loc client rest st of
           (st', fx) \<Rightarrow> (st', Log Error ''MANAGER'' # fx)))"

definition due_schedule :: "int \<Rightarrow> schedule \<Rightarrow> bool" where
  "due_schedule now sch \<longleftrightarrow> enabled sch \<and> nextRun sch \<le> now"

text \<open>
  \<^verbatim>\<open>check\<close> returns the array \<^verbatim>\<open>due\<close>, whose objects show the changes made to them.
\<close>

definition ScheduleManager_check ::
  "int \<Rightarrow> locale_now \<Rightarrow> (schedule \<Rightarrow> bool) \<Rightarrow> bool \<Rightarrow> ScheduleManager
     \<Rightarrow> schedule list \<times> ScheduleManager \<times> effect list" where
  "ScheduleManager_check now loc client disk_ok st =
     (let due = filter (due_schedule now) (map snd (schedules st)) in
      if due = [] then ([], st, [])
      else
        case process_due now loc client due st of
          (st', fx) \<Rightarrow>
            (map (\<lambda>sch. if client sch then bump now sch else sch) due, st',
             [Log Info ''MANAGER''] @ fx @ ScheduleManager_save disk_ok st'))"

section \<open>Sequences of calls\<close>

datatype remind_call =
    RCreate int bool string string string string
  | RDelete bool nat string
  | RCheck int bool

fun step_remind :: "int \<Rightarrow> remind_call \<Rightarrow> ReminderManager \<Rightarrow> ReminderManager" where
  "step_remind tz (RCreate now disk_ok user channel message timeString) st =
     fst (snd (ReminderManager_create tz now disk_ok user channel message timeString st))"
| "step_remind tz (RDelete disk_ok reminderId user) st =
     fst (snd (ReminderManager_delete disk_ok reminderId user st))"
| "step_remind tz (RCheck now disk_ok) st = fst (snd (ReminderManager_check now disk_ok st))"

definition run_remind :: "int \<Rightarrow> remind_call list \<Rightarrow> ReminderManager" where
  "run_remind tz calls = foldl (\<lambda>st c. step_remind tz c st) ReminderManager_new calls"

datatype schedule_call =
    SCreate int bool string string string string
  | SDelete bool nat string
  | SCheck int locale_now "schedule \<Rightarrow> bool" bool

fun step_schedule :: "int \<Rightarrow> schedule_call \<Rightarrow> ScheduleManager \<Rightarrow> ScheduleManager" where
  "step_schedule tz (SCreate now disk_ok channel message timeString creator) st =
     fst (snd (ScheduleManager_create tz now disk_ok channel message timeString creator st))"
| "step_schedule tz (SDelete disk_ok scheduleId user) st =
     fst (snd (ScheduleManager_delete disk_ok scheduleId user st))"
| "step_schedule tz (SCheck now loc client disk_ok) st =
     fst (snd (ScheduleManager_check now loc client disk_ok st))"

definition run_schedule :: "int \<Rightarrow> schedule_call list \<Rightarrow> ScheduleManager" where
  "run_schedule tz calls = foldl (\<lambda>st c. step_schedule tz c st) ScheduleManager_new calls"

section \<open>Specification-side notions\<close>









text \<open>
  The two indexes of a store agree when, for every id, the sets of the secondary index
  that hold the id are: exactly the set of the task's destination when the primary map
  has a task under the id, and none when it has not.
\<close>

definition dual_index_consistent ::
  "(nat \<times> 'a) list \<Rightarrow> (string \<times> nat list) list \<Rightarrow> ('a \<Rightarrow> string) \<Rightarrow> bool" where
  "dual_index_consistent primary index dest \<longleftrightarrow>
     (\<forall>i. case map_of primary i of
            None \<Rightarrow> (\<forall>k. i \<notin> set (get_set index k))
          | Some x \<Rightarrow> (\<forall>k. i \<in> set (get_set index k) \<longleftrightarrow> k = dest x))"

text \<open>
  What the constructor establishes and every method keeps: a key occurs once in the
  primary map, an object is stored under its own id, and every id in use is below the
  counter.
\<close>

definition keys_ok :: "(nat \<times> 'a) list \<Rightarrow> ('a \<Rightarrow> nat) \<Rightarrow> nat \<Rightarrow> bool" where
  "keys_ok primary ident next \<longleftrightarrow>
     distinct (map fst primary) \<and> (\<forall>(k, x) \<in> set primary. ident x = k \<and> k < next)"

definition store_ok_remind :: "ReminderManager \<Rightarrow> bool" where
  "store_ok_remind st \<longleftrightarrow>
     keys_ok (reminders st) r_id (nextId_remind st)
     \<and> dual_index_consistent (reminders st) (userReminders st) userId"

definition store_ok_schedule :: "ScheduleManager \<Rightarrow> bool" where
  "store_ok_schedule st \<longleftrightarrow>
     keys_ok (schedules st) s_id (nextId_schedule st)
     \<and> dual_index_consistent (schedules st) (channelSchedules st) s_channelId"

text \<open>
  While \<^verbatim>\<open>check\<close> works through a list of objects it took from the primary map, the map
  still gives every listed id the destination the listed object has, or the id is gone.
\<close>

definition sweep_safe :: "(nat \<times> reminder) list \<Rightarrow> ReminderManager \<Rightarrow> bool" where
  "sweep_safe xs st \<longleftrightarrow>
     (\<forall>(i, rem) \<in> set xs. \<forall>x. map_of (reminders st) i = Some x \<longrightarrow> userId x = userId rem)"

definition settle_safe :: "schedule list \<Rightarrow> ScheduleManager \<Rightarrow> bool" where
  "settle_safe ds st \<longleftrightarrow>
     (\<forall>d \<in> set ds. \<forall>x. map_of (schedules st) (s_id d) = Some x \<longrightarrow> s_channelId x = s_channelId d)"

text \<open>A call gives a result, the store after the call, and its effects.\<close>

definition result_of :: "'r \<times> 's \<times> 'e \<Rightarrow> 'r" where
  "result_of out = fst out"

definition store_of :: "'r \<times> 's \<times> 'e \<Rightarrow> 's" where
  "store_of out = fst (snd out)"

definition effects_of :: "'r \<times> 's \<times> 'e \<Rightarrow> 'e" where
  "effects_of out = snd (snd out)"

text \<open>
  The messages sent for the schedule with a given id, and the trigger events emitted for
  the reminder with a given id, among the effects of a call.
\<close>

definition sends_for :: "nat \<Rightarrow> effect list \<Rightarrow> effect list" where
  "sends_for i fx = filter (\<lambda>e. case e of Send j c t \<Rightarrow> j = i | _ \<Rightarrow> False) fx"

definition triggers_for :: "nat \<Rightarrow> effect list \<Rightarrow> effect list" where
  "triggers_for i fx =
     filter (\<lambda>e. case e of Emit name rem \<Rightarrow> name = ''reminder:trigger'' \<and> r_id rem = i
                  | _ \<Rightarrow> False) fx"

section \<open>Notions used to state the properties of the parsers\<close>

text \<open>
  \<open>first_full\<close> is the choice \<open>match\<close> makes among the ways a pattern matches: the groups of
  the first way that reaches the end of the input.

  \<open>clock_text tail hs ms mer\<close> says that the clock part of every pattern,
  \<^verbatim>\<open>(\d{1,2})(?::(\d{2}))?\s*(am|pm)?$\<close>, reads the text \<open>tail\<close> as the hour digits \<open>hs\<close>,
  the minute digits \<open>ms\<close> and the meridiem \<open>mer\<close> (the latter two are absent when \<open>None\<close>),
  whatever the number \<open>k\<close> of its first group is, and leaves the groups before \<open>k\<close> alone.

  \<open>minutes_text mm v\<close> says that \<open>mm\<close> is a way to write the minutes \<open>v\<close> after the hour:
  nothing at all for \<open>0\<close>, or a colon and two digits.

  \<open>clock_in_range now\<close> says that the clock is not before 1970 and more than
  \<open>1000000000\<close> ms (eleven days) before the end of the Date range; then every date that
  RemindBot builds from a time of day is a valid date.
\<close>

definition first_full :: "(string \<times> groups) list \<Rightarrow> groups option" where
  "first_full results =
     (case filter (\<lambda>(rest, g). rest = []) results of
        [] \<Rightarrow> None
      | (rest, g) # others \<Rightarrow> Some g)"

definition clock_text :: "string \<Rightarrow> string \<Rightarrow> string option \<Rightarrow> string option \<Rightarrow> bool" where
  "clock_text tail hs ms mer \<longleftrightarrow>
     (\<exists>u w. tail = u # w \<and> is_digit u)
     \<and> (\<forall>k g. g (k + 1) = None \<and> g (k + 2) = None \<longrightarrow>
            (\<exists>g'. first_full (rx (clock_re k) (tail, g)) = Some g'
                  \<and> g' k = Some hs \<and> g' (k + 1) = ms \<and> g' (k + 2) = mer
                  \<and> (\<forall>j < k. g' j = g j)))"

definition minutes_text :: "string \<Rightarrow> int \<Rightarrow> bool" where
  "minutes_text mm v \<longleftrightarrow>
     (mm = [] \<and> v = 0)
     \<or> (\<exists>c d. is_digit c \<and> is_digit d \<and> mm = CHR '':'' # [c, d]
               \<and> v = 10 * digit_value c + digit_value d)"


section \<open>Verified properties\<close>

subsection \<open>Calendar arithmetic\<close>

lemma startOfDay_aligned: "\<exists>q. startOfDay tz now + tz = q * 86400000"
proof -
  have "startOfDay tz now + tz = (now + tz) - (now + tz) mod 86400000"
    by (simp add: startOfDay_def msPerDay_def)
  also have "\<dots> = ((now + tz) div 86400000) * 86400000"
    by (simp add: minus_mod_eq_div_mult)
  finally show ?thesis by blast
qed



lemma getHours_dateAt:
  assumes "0 \<le> h" "h < 24" "0 \<le> m" "m < 60"
  shows "getHours tz (dateAt tz now d h m) = h"
proof -
  obtain q where q: "startOfDay tz now + tz = q * 86400000"
    using startOfDay_aligned by blast
  have e: "dateAt tz now d h m + tz = (h * 3600000 + m * 60000) + (q + d) * 86400000"
    using q by (simp add: dateAt_def msPerDay_def algebra_simps)
  have r: "0 \<le> h * 3600000 + m * 60000" "h * 3600000 + m * 60000 < 86400000"
    using assms by auto
  have "(dateAt tz now d h m + tz) mod 86400000 = (h * 3600000 + m * 60000) mod 86400000"
    unfolding e by (rule mod_mult_self1)
  then have "(dateAt tz now d h m + tz) mod 86400000 = h * 3600000 + m * 60000"
    using r by simp
  moreover have "(h * 3600000 + m * 60000) div 3600000 = h"
    using assms by auto
  ultimately show ?thesis by (simp add: getHours_def msPerDay_def)
qed

lemma getMinutes_dateAt:
  assumes "0 \<le> m" "m < 60"
  shows "getMinutes tz (dateAt tz now d h m) = m"
proof -
  obtain q where q: "startOfDay tz now + tz = q * 86400000"
    using startOfDay_aligned by blast
  have e: "dateAt tz now d h m + tz = m * 60000 + (24 * (q + d) + h) * 3600000"
    using q by (simp add: dateAt_def msPerDay_def algebra_simps)
  have "(dateAt tz now d h m + tz) mod 3600000 = (m * 60000) mod 3600000"
    unfolding e by (rule mod_mult_self1)
  then have "(dateAt tz now d h m + tz) mod 3600000 = m * 60000"
    using assms by simp
  then show ?thesis using assms by (simp add: getMinutes_def)
qed

subsection \<open>Reading the groups of a match\<close>

lemma match_groups:
  "map_option (\<lambda>g. map g ns) (match re s) = Some vs \<Longrightarrow> \<exists>g. match re s = Some g \<and> map g ns = vs"
  by (cases "match re s") auto

subsection \<open>Template markers\<close>








subsection \<open>Characters and digits\<close>

lemma digits_table:
  "\<forall>c \<in> set ''0123456789''.
     \<not> is_space c \<and> lower_char c = c \<and> 0 \<le> digit_value c \<and> digit_value c \<le> 9
     \<and> c \<notin> set ''abcdefghijklmnopqrstuvwxyz:''"
  by code_simp

lemma digit_facts:
  assumes "is_digit c"
  shows "\<not> is_space c" "lower_char c = c" "0 \<le> digit_value c" "digit_value c \<le> 9"
    "c \<notin> set ''abcdefghijklmnopqrstuvwxyz:''"
  using assms digits_table unfolding is_digit_def by blast+

lemma digit_not_letter:
  assumes "is_digit c"
  shows "c \<noteq> CHR ''a''" "c \<noteq> CHR '':''" "c \<noteq> CHR ''p''" "c \<noteq> CHR ''s''"
    "c \<noteq> CHR ''d''" "c \<noteq> CHR ''m''" "c \<noteq> CHR ''h''" "c \<noteq> CHR ''w''"
  using digit_facts(5) [OF assms] by auto

lemma spaces_table:
  "\<forall>c \<in> set [CHR '' '', CHR 0x09, CHR 0x0A, CHR 0x0B, CHR 0x0C, CHR 0x0D].
     lower_char c = c \<and> \<not> is_digit c \<and> c \<notin> set ''apmAPM:''"
  by code_simp

lemma space_facts:
  assumes "is_space c"
  shows "lower_char c = c" "\<not> is_digit c" "c \<noteq> CHR ''a''" "c \<noteq> CHR ''p''" "c \<noteq> CHR '':''"
  using assms spaces_table unfolding is_space_def by auto

lemma literal_chars:
  "is_space CHR '' ''" "\<not> is_space CHR '':''" "\<not> is_digit CHR '':''" "\<not> is_space CHR ''d''"
  "\<not> is_space CHR ''a''" "\<not> is_space CHR ''p''" "\<not> is_space CHR ''m''" "\<not> is_space CHR ''M''"
  "\<not> is_digit CHR ''a''" "\<not> is_digit CHR ''p''" "\<not> is_digit CHR '' ''"
  "\<not> is_space CHR ''t''" "\<not> is_space CHR ''w''" "\<not> is_space CHR ''e''"
  by (simp_all add: is_space_def is_digit_def)


lemma parseInt_12: "parseInt (Some ''12'') = Some 12"
  by code_simp

subsection \<open>Cleaning an input\<close>



subsection \<open>The first full match\<close>


lemma first_full_simps [simp]:
  "first_full [] = None"
  "first_full ((r, g) # xs) = (if r = [] then Some g else first_full xs)"
  by (simp_all add: first_full_def)

lemma first_full_append:
  "first_full (xs @ ys) = (case first_full xs of None \<Rightarrow> first_full ys | Some g \<Rightarrow> Some g)"
  by (induction xs) auto

subsection \<open>The patterns up to the clock\<close>









subsection \<open>The clock part of the patterns\<close>

lemma longest_digits:
  "is_digit a \<Longrightarrow> is_digit b \<Longrightarrow> longest Digit (Some 2) (a # b # s) = Suc (Suc 0)"
  "is_digit a \<Longrightarrow> \<not> is_digit c \<Longrightarrow> longest Digit (Some 2) (a # c # s) = Suc 0"
  "\<not> is_digit c \<Longrightarrow> longest Digit (Some 2) (c # s) = 0"
  "longest Digit (Some 2) [] = 0"
  by (simp_all add: longest_def in_class_def)

lemma longest_spaces:
  "\<forall>c \<in> set gap. is_space c \<Longrightarrow> \<not> is_space x \<Longrightarrow> longest Space None (gap @ x # s) = length gap"
  "\<not> is_space x \<Longrightarrow> longest Space None (x # s) = 0"
  "longest Space None [] = 0"
  by (simp_all add: longest_def in_class_def)


lemma clock_text_12_plain:
  assumes mer: "mer = ''am'' \<or> mer = ''pm''"
  shows "clock_text (''12'' @ mer) ''12'' None (Some mer)"
proof -
  have twelve: "is_digit CHR ''1''" "is_digit CHR ''2''"
    by (simp_all add: is_digit_def)
  show ?thesis
    unfolding clock_text_def using mer twelve
    by (elim disjE)
      (simp_all add: clock_re_def longest_digits longest_spaces literal_chars
          digit_not_letter first_full_append)
qed

lemma clock_text_12_minutes:
  assumes mer: "mer = ''am'' \<or> mer = ''pm''" and "is_digit c" "is_digit d"
  shows "clock_text (''12'' @ CHR '':'' # [c, d] @ mer) ''12'' (Some [c, d]) (Some mer)"
proof -
  have twelve: "is_digit CHR ''1''" "is_digit CHR ''2''"
    by (simp_all add: is_digit_def)
  show ?thesis
    unfolding clock_text_def using assms twelve
    by (elim disjE)
      (simp_all add: clock_re_def longest_digits longest_spaces literal_chars
          digit_not_letter first_full_append)
qed

lemma clock_text_12_gap:
  assumes mer: "mer = ''am'' \<or> mer = ''pm''" and s: "is_space s" "\<forall>c \<in> set gap. is_space c"
  shows "clock_text (''12'' @ s # gap @ mer) ''12'' None (Some mer)"
proof -
  have twelve: "is_digit CHR ''1''" "is_digit CHR ''2''"
    by (simp_all add: is_digit_def)
  have sp: "longest Space None (s # gap @ x # r) = Suc (length gap)" if "\<not> is_space x" for x r
    using longest_spaces(1) [of "s # gap" x r] s that by simp
  show ?thesis
    unfolding clock_text_def using mer twelve s(1)
    by (elim disjE)
      (simp_all add: clock_re_def longest_digits sp longest_spaces literal_chars
          digit_not_letter space_facts first_full_append)
qed

lemma clock_text_12_minutes_gap:
  assumes mer: "mer = ''am'' \<or> mer = ''pm''" and "is_digit c" "is_digit d"
    and s: "is_space s" "\<forall>c \<in> set gap. is_space c"
  shows "clock_text (''12'' @ CHR '':'' # [c, d] @ s # gap @ mer) ''12'' (Some [c, d]) (Some mer)"
proof -
  have twelve: "is_digit CHR ''1''" "is_digit CHR ''2''"
    by (simp_all add: is_digit_def)
  have sp: "longest Space None (s # gap @ x # r) = Suc (length gap)" if "\<not> is_space x" for x r
    using longest_spaces(1) [of "s # gap" x r] s that by simp
  show ?thesis
    unfolding clock_text_def using assms(1-4) twelve
    by (elim disjE)
      (simp_all add: clock_re_def longest_digits sp longest_spaces literal_chars
          digit_not_letter space_facts first_full_append)
qed

lemma clock_text_12:
  assumes mer: "mer = ''am'' \<or> mer = ''pm''"
    and gap: "\<forall>c \<in> set gap. is_space c"
    and mm: "mm = [] \<and> ms = None
             \<or> (\<exists>c d. is_digit c \<and> is_digit d \<and> mm = CHR '':'' # [c, d] \<and> ms = Some [c, d])"
  shows "clock_text (''12'' @ mm @ gap @ mer) ''12'' ms (Some mer)"
proof (cases gap)
  case Nil
  then show ?thesis
    using mm clock_text_12_plain [OF mer] clock_text_12_minutes [OF mer] by auto
next
  case (Cons s gap')
  then have "is_space s" "\<forall>c \<in> set gap'. is_space c"
    using gap by simp_all
  then show ?thesis
    using mm clock_text_12_gap [OF mer, of s gap'] clock_text_12_minutes_gap [OF mer, of _ _ s gap']
    unfolding Cons by auto
qed

subsection \<open>The parsers on an input that ends with a clock text\<close>











subsection \<open>The phrasings of a clock time\<close>




subsection \<open>Dates built from a time of day\<close>






subsection \<open>The parsers at the inputs of the claims\<close>

text \<open>
  Claim C4 (the parser never returns a time in the past) fails in RemindBot. On Monday
  24 November 2025 at 18:00 UTC, \<^verbatim>\<open>every hour at 9am\<close> is accepted: the time today, 09:00,
  has passed, the parser adds the interval of one hour instead of a day, and returns
  10:00 of the same day, eight hours before \<open>now\<close>.
\<close>

theorem every_hour_at_9am_in_the_past:
  "parse_remind 0 1764007200000 ''every hour at 9am'' =
     Inr \<lparr>timestamp = 1763978400000, interval = Some 3600000, isRecurring = True\<rparr>
   \<and> (1763978400000 :: int) < 1764007200000"
  by code_simp

text \<open>
  Claim C5 (a weekly time later today stays today) fails in ScheduleBot. On Monday
  24 November 2025 at 09:10 UTC, \<^verbatim>\<open>weekly monday 9:30\<close> is twenty minutes ahead, yet
  \<^verbatim>\<open>getNextWeeklyRun\<close> compares hours only and returns 09:30 of Monday 1 December.
\<close>

theorem weekly_same_hour_rolls_over:
  "getDay 0 1763975400000 = 1 \<and> getHours 0 1763975400000 = 9 \<and> getMinutes 0 1763975400000 = 10
   \<and> 1763975400000 < dateAt 0 1763975400000 0 9 30
   \<and> parse_schedule 0 1763975400000 ''weekly monday 9:30'' =
       Inr \<lparr>kind = Recurring (Weekly ''monday'') \<lparr>hour = 9, minute = 30\<rparr>,
            nextRun = dateAt 0 1763975400000 7 9 30\<rparr>
   \<and> dateAt 0 1763975400000 7 9 30 = 1764581400000"
  by code_simp

subsection \<open>A time of day out of range\<close>






subsection \<open>Maps, sets and the two indexes\<close>

lemma get_set_update [simp]:
  "get_set (AList.update k v index) k' = (if k' = k then v else get_set index k')"
  by (simp add: get_set_def update_conv')

lemma get_set_index_delete [simp]:
  "get_set (index_delete k x index) k' =
     (if k' = k then removeAll x (get_set index k) else get_set index k')"
  by (auto simp: get_set_def index_delete_def update_conv' split: option.splits)

lemma set_set_add [simp]: "set (set_add x xs) = insert x (set xs)"
  by (auto simp: set_add_def)

lemma keys_ok_fresh: "keys_ok primary ident next \<Longrightarrow> map_of primary next = None"
  by (force simp: keys_ok_def map_of_eq_None_iff)

lemma keys_ok_update:
  assumes "keys_ok primary ident next" "ident x = next"
  shows "keys_ok (AList.update next x primary) ident (Suc next)"
proof -
  have "next \<notin> fst ` set primary" using assms(1) by (force simp: keys_ok_def)
  then have "AList.update next x primary = primary @ [(next, x)]"
    by (induction primary) auto
  then show ?thesis using assms \<open>next \<notin> fst ` set primary\<close>
    by (auto simp: keys_ok_def less_Suc_eq)
qed

lemma keys_ok_delete:
  "keys_ok primary ident next \<Longrightarrow> keys_ok (AList.delete k primary) ident next"
proof -
  assume a: "keys_ok primary ident next"
  have "set (AList.delete k primary) \<subseteq> set primary" by (auto simp: AList.delete_eq)
  then show ?thesis using a by (auto simp: keys_ok_def distinct_delete)
qed

lemma consistent_insert:
  assumes "dual_index_consistent primary index dest" "map_of primary i = None" "dest x = k"
  shows "dual_index_consistent (AList.update i x primary)
           (AList.update k (set_add i (get_set index k)) index) dest"
  unfolding dual_index_consistent_def
proof
  fix j
  from assms(1) have old: "case map_of primary j of
            None \<Rightarrow> (\<forall>k. j \<notin> set (get_set index k))
          | Some x \<Rightarrow> (\<forall>k. j \<in> set (get_set index k) \<longleftrightarrow> k = dest x)"
    unfolding dual_index_consistent_def by blast
  show "case map_of (AList.update i x primary) j of
            None \<Rightarrow> (\<forall>k'. j \<notin> set (get_set (AList.update k (set_add i (get_set index k)) index) k'))
          | Some y \<Rightarrow> (\<forall>k'. j \<in> set (get_set (AList.update k (set_add i (get_set index k)) index) k') \<longleftrightarrow> k' = dest y)"
  proof (cases "j = i")
    case True
    with old assms(2,3) show ?thesis by (simp add: update_conv')
  next
    case False
    with old show ?thesis by (auto simp: update_conv' split: option.splits)
  qed
qed

lemma consistent_remove:
  assumes "dual_index_consistent primary index dest"
    and "\<And>x. map_of primary i = Some x \<Longrightarrow> dest x = k"
  shows "dual_index_consistent (AList.delete i primary) (index_delete k i index) dest"
  unfolding dual_index_consistent_def
proof
  fix j
  from assms(1) have old: "\<And>j. case map_of primary j of
            None \<Rightarrow> (\<forall>k. j \<notin> set (get_set index k))
          | Some x \<Rightarrow> (\<forall>k. j \<in> set (get_set index k) \<longleftrightarrow> k = dest x)"
    unfolding dual_index_consistent_def by blast
  show "case map_of (AList.delete i primary) j of
            None \<Rightarrow> (\<forall>k'. j \<notin> set (get_set (index_delete k i index) k'))
          | Some y \<Rightarrow> (\<forall>k'. j \<in> set (get_set (index_delete k i index) k') \<longleftrightarrow> k' = dest y)"
  proof (cases "j = i")
    case True
    with old [of i] assms(2) show ?thesis
      by (auto simp: delete_conv' split: option.splits)
  next
    case False
    with old [of j] show ?thesis by (auto simp: delete_conv' split: option.splits)
  qed
qed

lemma consistent_values:
  assumes "dual_index_consistent primary index dest"
    and "\<And>i. rel_option (\<lambda>x y. dest y = dest x) (map_of primary i) (map_of primary' i)"
  shows "dual_index_consistent primary' index dest"
  unfolding dual_index_consistent_def
proof
  fix i
  from assms(1) have "case map_of primary i of
      None \<Rightarrow> (\<forall>k. i \<notin> set (get_set index k))
    | Some x \<Rightarrow> (\<forall>k. i \<in> set (get_set index k) \<longleftrightarrow> k = dest x)"
    unfolding dual_index_consistent_def by blast
  with assms(2) [of i] show "case map_of primary' i of
      None \<Rightarrow> (\<forall>k. i \<notin> set (get_set index k))
    | Some x \<Rightarrow> (\<forall>k. i \<in> set (get_set index k) \<longleftrightarrow> k = dest x)"
    by (cases "map_of primary i"; cases "map_of primary' i") auto
qed

subsection \<open>ReminderManager keeps its store well-formed\<close>

lemma fire_fields [simp]: "r_id (fire now rem) = r_id rem" "userId (fire now rem) = userId rem"
  "isRecurring (fire now rem) = isRecurring rem"
  by (simp_all add: fire_def)

lemma check_mark_keys: "map fst (fst (check_mark now xs)) = map fst xs"
  by (induction xs) (auto split: prod.splits)

lemma check_mark_members:
  "(i, y) \<in> set (fst (check_mark now xs)) \<Longrightarrow>
   \<exists>x. (i, x) \<in> set xs \<and> (y = x \<or> y = fire now x)"
proof (induction xs)
  case Nil
  then show ?case by simp
next
  case (Cons p xs)
  obtain j rem where p: "p = (j, rem)" by (cases p)
  obtain m t f th where c: "check_mark now xs = (m, t, f, th)"
    by (cases "check_mark now xs")
  from Cons.prems have "(i, y) = (j, rem) \<or> (i, y) = (j, fire now rem) \<or> (i, y) \<in> set xs
      \<or> (i, y) \<in> set m"
    unfolding p using c by (auto split: if_splits)
  moreover have "(i, y) \<in> set m \<Longrightarrow> \<exists>x. (i, x) \<in> set xs \<and> (y = x \<or> y = fire now x)"
    using Cons.IH c by simp
  ultimately show ?case unfolding p by fastforce
qed

lemma map_of_check_mark:
  "rel_option (\<lambda>x y. y = x \<or> y = fire now x) (map_of xs i)
     (map_of (fst (check_mark now xs)) i)"
proof (induction xs)
  case Nil
  then show ?case by simp
next
  case (Cons p xs)
  obtain j rem where p: "p = (j, rem)" by (cases p)
  have same: "rel_option (\<lambda>x y. y = x \<or> y = fire now x) (map_of xs i) (map_of xs i)"
    by (simp add: option.rel_refl)
  show ?case using Cons.IH same unfolding p
    by (cases "check_mark now xs") auto
qed

lemma keys_ok_check_mark:
  assumes "keys_ok xs r_id n"
  shows "keys_ok (fst (check_mark now xs)) r_id n"
  unfolding keys_ok_def
proof (intro conjI ballI)
  show "distinct (map fst (fst (check_mark now xs)))"
    using assms by (simp add: check_mark_keys keys_ok_def)
next
  fix p assume p: "p \<in> set (fst (check_mark now xs))"
  obtain j y where jy: "p = (j, y)" by (cases p)
  with p obtain x where "(j, x) \<in> set xs" "y = x \<or> y = fire now x"
    using check_mark_members by blast
  then show "case p of (k, x) \<Rightarrow> r_id x = k \<and> k < n"
    using assms jy by (auto simp: keys_ok_def)
qed

lemma store_ok_check_sweep:
  "store_ok_remind st \<Longrightarrow> sweep_safe xs st \<Longrightarrow> store_ok_remind (check_sweep xs st)"
proof (induction xs arbitrary: st)
  case Nil
  then show ?case by simp
next
  case (Cons p xs)
  obtain i rem where p: "p = (i, rem)" by (cases p)
  let ?st = "st\<lparr>userReminders := index_delete (userId rem) i (userReminders st),
                 reminders := AList.delete i (reminders st)\<rparr>"
  have safe: "sweep_safe xs st" "\<And>x. map_of (reminders st) i = Some x \<Longrightarrow> userId x = userId rem"
    using Cons.prems(2) by (auto simp: sweep_safe_def p)
  show ?case
  proof (cases "triggered rem \<and> \<not> isRecurring rem")
    case True
    have "store_ok_remind ?st"
      using Cons.prems(1) safe(2)
      by (simp add: store_ok_remind_def keys_ok_delete consistent_remove)
    moreover have "sweep_safe xs ?st"
      using safe(1) by (auto simp: sweep_safe_def delete_conv' split: if_splits)
    ultimately show ?thesis using Cons.IH [of ?st] True by (simp add: p)
  next
    case False
    then show ?thesis using Cons.IH [OF Cons.prems(1) safe(1)] by (auto simp: p)
  qed
qed

lemma store_ok_ReminderManager_check:
  assumes "store_ok_remind st"
  shows "store_ok_remind (fst (snd (ReminderManager_check now disk_ok st)))"
proof -
  let ?marked = "fst (check_mark now (reminders st))"
  let ?st = "st\<lparr>reminders := ?marked\<rparr>"
  have k: "keys_ok ?marked r_id (nextId_remind st)"
    using assms by (simp add: store_ok_remind_def keys_ok_check_mark)
  have "dual_index_consistent ?marked (userReminders st) userId"
  proof (rule consistent_values)
    show "dual_index_consistent (reminders st) (userReminders st) userId"
      using assms by (simp add: store_ok_remind_def)
    show "rel_option (\<lambda>x y. userId y = userId x) (map_of (reminders st) i) (map_of ?marked i)" for i
      using map_of_check_mark [of now "reminders st" i]
      by (cases "map_of (reminders st) i"; cases "map_of ?marked i") auto
  qed
  with k have ok: "store_ok_remind ?st" by (simp add: store_ok_remind_def)
  have "sweep_safe ?marked ?st"
    using k by (auto simp: sweep_safe_def keys_ok_def dest: eq_key_imp_eq_value)
  with ok have "store_ok_remind (check_sweep ?marked ?st)" by (rule store_ok_check_sweep)
  with ok show ?thesis
    by (cases "check_mark now (reminders st)")
      (auto simp: ReminderManager_check_def ReminderManager_save_def Let_def)
qed

lemma store_ok_ReminderManager_create:
  assumes "store_ok_remind st"
  shows "store_ok_remind
           (fst (snd (ReminderManager_create tz now disk_ok user channel message timeString st)))"
proof (cases "length (get_set (userReminders st) user) \<ge> maxRemindersPerUser")
  case True
  then show ?thesis using assms by (simp add: ReminderManager_create_def)
next
  case False
  show ?thesis
  proof (cases "parse_remind tz now timeString")
    case (Inl e)
    then show ?thesis using assms False by (simp add: ReminderManager_create_def)
  next
    case (Inr p)
    have fresh: "map_of (reminders st) (nextId_remind st) = None"
      using assms by (auto simp: store_ok_remind_def intro: keys_ok_fresh)
    show ?thesis
      using assms False Inr fresh
      by (simp add: ReminderManager_create_def ReminderManager_save_def Let_def
          store_ok_remind_def keys_ok_update consistent_insert)
  qed
qed

lemma store_ok_ReminderManager_delete:
  assumes "store_ok_remind st"
  shows "store_ok_remind (fst (snd (ReminderManager_delete disk_ok reminderId user st)))"
proof (cases "map_of (reminders st) reminderId")
  case None
  then show ?thesis using assms by (simp add: ReminderManager_delete_def)
next
  case (Some rem)
  have "dual_index_consistent (AList.delete reminderId (reminders st))
          (index_delete (userId rem) reminderId (userReminders st)) userId"
    by (rule consistent_remove) (use assms Some in \<open>auto simp: store_ok_remind_def\<close>)
  then show ?thesis using assms Some
    by (auto simp: ReminderManager_delete_def ReminderManager_save_def Let_def
        store_ok_remind_def keys_ok_delete)
qed

lemma store_ok_run_remind: "store_ok_remind (run_remind tz calls)"
proof (induction calls rule: rev_induct)
  case Nil
  show ?case
    by (simp add: run_remind_def ReminderManager_new_def store_ok_remind_def keys_ok_def
        dual_index_consistent_def get_set_def)
next
  case (snoc c calls)
  then show ?case
    by (cases c)
      (simp_all add: run_remind_def store_ok_ReminderManager_create
        store_ok_ReminderManager_delete store_ok_ReminderManager_check)
qed

subsection \<open>ScheduleManager keeps its store well-formed\<close>

lemma bump_fields [simp]: "s_id (bump now sch) = s_id sch"
  "s_channelId (bump now sch) = s_channelId sch" "kind (bump now sch) = kind sch"
  "enabled (bump now sch) = enabled sch" "s_message (bump now sch) = s_message sch"
  by (simp_all add: bump_def split: kind.splits period.splits)

lemma set_map_entry:
  "(j, y) \<in> set (AList.map_entry k f xs) \<Longrightarrow> \<exists>x. (j, x) \<in> set xs \<and> (y = x \<or> y = f x)"
  by (induction xs) (auto split: if_splits)

lemma keys_ok_map_entry:
  assumes "keys_ok xs ident n" and "\<And>x. ident (f x) = ident x"
  shows "keys_ok (AList.map_entry k f xs) ident n"
  unfolding keys_ok_def
proof (intro conjI ballI)
  show "distinct (map fst (AList.map_entry k f xs))"
    using assms(1) by (simp add: keys_ok_def distinct_map_entry)
next
  fix p assume p: "p \<in> set (AList.map_entry k f xs)"
  obtain j y where jy: "p = (j, y)" by (cases p)
  with p obtain x where "(j, x) \<in> set xs" "y = x \<or> y = f x"
    using set_map_entry by fastforce
  then show "case p of (k, x) \<Rightarrow> ident x = k \<and> k < n"
    using assms jy by (auto simp: keys_ok_def)
qed

lemma store_ok_settle:
  assumes "store_ok_schedule st"
    and "\<And>x. map_of (schedules st) (s_id sch) = Some x \<Longrightarrow> s_channelId x = s_channelId sch"
  shows "store_ok_schedule (settle now sch st)"
proof (cases "kind sch = Once")
  case True
  have "dual_index_consistent (AList.delete (s_id sch) (schedules st))
          (index_delete (s_channelId sch) (s_id sch) (channelSchedules st)) s_channelId"
    by (rule consistent_remove) (use assms in \<open>auto simp: store_ok_schedule_def\<close>)
  then show ?thesis using assms(1) True
    by (simp add: settle_def store_ok_schedule_def keys_ok_delete)
next
  case False
  have "dual_index_consistent (AList.map_entry (s_id sch) (bump now) (schedules st))
          (channelSchedules st) s_channelId"
  proof (rule consistent_values)
    show "dual_index_consistent (schedules st) (channelSchedules st) s_channelId"
      using assms(1) by (simp add: store_ok_schedule_def)
    show "rel_option (\<lambda>x y. s_channelId y = s_channelId x) (map_of (schedules st) i)
            (map_of (AList.map_entry (s_id sch) (bump now) (schedules st)) i)" for i
      by (cases "map_of (schedules st) i") (auto simp: map_of_map_entry)
  qed
  then show ?thesis using assms(1) False
    by (cases "kind sch") (simp_all add: settle_def store_ok_schedule_def keys_ok_map_entry)
qed

lemma settle_lookup:
  "map_of (schedules (settle now sch st)) j = Some x \<Longrightarrow>
   \<exists>y. map_of (schedules st) j = Some y \<and> s_channelId y = s_channelId x"
proof (cases "kind sch")
  case Once
  assume "map_of (schedules (settle now sch st)) j = Some x"
  with Once show ?thesis by (simp add: settle_def delete_conv' split: if_splits)
next
  case (Recurring p t)
  assume "map_of (schedules (settle now sch st)) j = Some x"
  with Recurring show ?thesis
    by (auto simp: settle_def map_of_map_entry split: if_splits option.splits)
next
  case (Interval ms)
  assume "map_of (schedules (settle now sch st)) j = Some x"
  with Interval show ?thesis
    by (auto simp: settle_def map_of_map_entry split: if_splits option.splits)
qed

lemma settle_safe_settle:
  assumes "settle_safe ds st"
  shows "settle_safe ds (settle now sch st)"
  unfolding settle_safe_def
proof (intro ballI allI impI)
  fix d x
  assume d: "d \<in> set ds" and "map_of (schedules (settle now sch st)) (s_id d) = Some x"
  then obtain y where "map_of (schedules st) (s_id d) = Some y" "s_channelId y = s_channelId x"
    using settle_lookup by blast
  with assms d show "s_channelId x = s_channelId d" by (auto simp: settle_safe_def)
qed

lemma store_ok_process_due:
  "store_ok_schedule st \<Longrightarrow> settle_safe ds st \<Longrightarrow>
   store_ok_schedule (fst (process_due now loc client ds st))"
proof (induction ds arbitrary: st)
  case Nil
  then show ?case by simp
next
  case (Cons d ds)
  have safe: "settle_safe ds st"
    "\<And>x. map_of (schedules st) (s_id d) = Some x \<Longrightarrow> s_channelId x = s_channelId d"
    using Cons.prems(2) by (auto simp: settle_safe_def)
  show ?case
  proof (cases "client d")
    case True
    have "store_ok_schedule (settle now d st)"
      using Cons.prems(1) safe(2) by (rule store_ok_settle)
    moreover have "settle_safe ds (settle now d st)"
      using safe(1) by (rule settle_safe_settle)
    ultimately show ?thesis using Cons.IH [of "settle now d st"] True
      by (simp add: case_prod_unfold)
  next
    case False
    then show ?thesis using Cons.IH [OF Cons.prems(1) safe(1)] by (simp add: case_prod_unfold)
  qed
qed

lemma due_entries:
  assumes "keys_ok xs s_id n" and "d \<in> set (filter P (map snd xs))"
  shows "map_of xs (s_id d) = Some d"
proof -
  from assms(2) obtain k where "(k, d) \<in> set xs" by auto
  with assms(1) show ?thesis by (auto simp: keys_ok_def)
qed

lemma store_ok_ScheduleManager_check:
  assumes "store_ok_schedule st"
  shows "store_ok_schedule (fst (snd (ScheduleManager_check now loc client disk_ok st)))"
proof -
  let ?due = "filter (due_schedule now) (map snd (schedules st))"
  have "settle_safe ?due st"
    unfolding settle_safe_def
  proof (intro ballI allI impI)
    fix d x
    assume d: "d \<in> set ?due" and x: "map_of (schedules st) (s_id d) = Some x"
    have "keys_ok (schedules st) s_id (nextId_schedule st)"
      using assms by (simp add: store_ok_schedule_def)
    then have "map_of (schedules st) (s_id d) = Some d"
      using d by (rule due_entries)
    with x show "s_channelId x = s_channelId d" by simp
  qed
  with assms have "store_ok_schedule (fst (process_due now loc client ?due st))"
    by (rule store_ok_process_due)
  then show ?thesis using assms
    by (cases "process_due now loc client ?due st")
      (auto simp: ScheduleManager_check_def Let_def)
qed

lemma store_ok_ScheduleManager_create:
  assumes "store_ok_schedule st"
  shows "store_ok_schedule
           (fst (snd (ScheduleManager_create tz now disk_ok channel message timeString creator st)))"
proof (cases "length (get_set (channelSchedules st) channel) \<ge> maxSchedulesPerChannel")
  case True
  then show ?thesis using assms by (simp add: ScheduleManager_create_def)
next
  case False
  show ?thesis
  proof (cases "parse_schedule tz now timeString")
    case (Inl e)
    then show ?thesis using assms False by (simp add: ScheduleManager_create_def)
  next
    case (Inr p)
    have fresh: "map_of (schedules st) (nextId_schedule st) = None"
      using assms by (auto simp: store_ok_schedule_def intro: keys_ok_fresh)
    show ?thesis
      using assms False Inr fresh
      by (simp add: ScheduleManager_create_def Let_def store_ok_schedule_def keys_ok_update
          consistent_insert)
  qed
qed

lemma store_ok_ScheduleManager_delete:
  assumes "store_ok_schedule st"
  shows "store_ok_schedule (fst (snd (ScheduleManager_delete disk_ok scheduleId user st)))"
proof (cases "map_of (schedules st) scheduleId")
  case None
  then show ?thesis using assms by (simp add: ScheduleManager_delete_def)
next
  case (Some sch)
  have "dual_index_consistent (AList.delete scheduleId (schedules st))
          (index_delete (s_channelId sch) scheduleId (channelSchedules st)) s_channelId"
    by (rule consistent_remove) (use assms Some in \<open>auto simp: store_ok_schedule_def\<close>)
  then show ?thesis using assms Some
    by (auto simp: ScheduleManager_delete_def Let_def store_ok_schedule_def keys_ok_delete)
qed

lemma store_ok_run_schedule: "store_ok_schedule (run_schedule tz calls)"
proof (induction calls rule: rev_induct)
  case Nil
  show ?case
    by (simp add: run_schedule_def ScheduleManager_new_def store_ok_schedule_def keys_ok_def
        dual_index_consistent_def get_set_def)
next
  case (snoc c calls)
  then show ?case
    by (cases c)
      (simp_all add: run_schedule_def store_ok_ScheduleManager_create
        store_ok_ScheduleManager_delete store_ok_ScheduleManager_check)
qed

text \<open>
  Claim C1. After every sequence of \<^verbatim>\<open>create\<close>, \<^verbatim>\<open>delete\<close> and \<^verbatim>\<open>check\<close> calls on a new
  manager, whatever their arguments, the clock, and the outcomes of saving and of
  delivery, the two indexes agree: an id that the primary map holds is a member of the
  set of its task's destination (the user in RemindBot, the channel in ScheduleBot) and
  of no other set, and an id that the primary map does not hold is a member of no set.
\<close>

theorem dual_index_invariant:
  "dual_index_consistent (reminders (run_remind tz calls))
     (userReminders (run_remind tz calls)) userId
   \<and> dual_index_consistent (schedules (run_schedule tz calls'))
       (channelSchedules (run_schedule tz calls')) s_channelId"
  using store_ok_run_remind [of tz calls] store_ok_run_schedule [of tz calls']
  by (simp add: store_ok_remind_def store_ok_schedule_def)

theorem dual_index_invariant_witness:
  "dual_index_consistent
     (reminders (run_remind 0
        [RCreate 1763975400000 True ''alice'' ''general'' ''stand-up'' ''in 5 minutes'',
         RCreate 1763975400000 False ''bob'' ''general'' ''water'' ''every 2 hours'',
         RCheck 1763979000000 True, RDelete True 2 ''bob'']))
     (userReminders (run_remind 0
        [RCreate 1763975400000 True ''alice'' ''general'' ''stand-up'' ''in 5 minutes'',
         RCreate 1763975400000 False ''bob'' ''general'' ''water'' ''every 2 hours'',
         RCheck 1763979000000 True, RDelete True 2 ''bob''])) userId
   \<and> dual_index_consistent
       (schedules (run_schedule 0
          [SCreate 1763975400000 True ''general'' ''Good morning'' ''daily 9am'' ''alice'',
           SCreate 1763975400000 True ''general'' ''Meeting'' ''today 9:30'' ''bob'',
           SCheck 1763979000000
             \<lparr>date_string = ''11/24/2025'', time_string = ''10:10:00 AM'', day_string = ''Monday''\<rparr>
             (\<lambda>sch. True) False,
           SDelete True 1 ''alice'']))
       (channelSchedules (run_schedule 0
          [SCreate 1763975400000 True ''general'' ''Good morning'' ''daily 9am'' ''alice'',
           SCreate 1763975400000 True ''general'' ''Meeting'' ''today 9:30'' ''bob'',
           SCheck 1763979000000
             \<lparr>date_string = ''11/24/2025'', time_string = ''10:10:00 AM'', day_string = ''Monday''\<rparr>
             (\<lambda>sch. True) False,
           SDelete True 1 ''alice''])) s_channelId"
  by (rule dual_index_invariant)

subsection \<open>The limit per destination\<close>

text \<open>
  Claim C8. When the set of a destination already holds the maximum number of ids (25
  per user in RemindBot, 20 per channel in ScheduleBot), \<^verbatim>\<open>create\<close> fails with
  \<^verbatim>\<open>LIMIT_REACHED\<close> whatever the time string is, parsable or not, so the parser has no
  part in the outcome; the store after the call is the store before it, and so is the
  number of ids of the destination.
\<close>

theorem create_at_limit:
  "(maxRemindersPerUser \<le> length (get_set (userReminders st) user) \<longrightarrow>
      ReminderManager_create tz now disk_ok user channel message timeString st =
        (Inl LIMIT_REACHED, st, [Log Error ''MANAGER'']))
   \<and> (maxSchedulesPerChannel \<le> length (get_set (channelSchedules st') channel) \<longrightarrow>
      ScheduleManager_create tz now disk_ok channel message timeString creator st' =
        (Inl LIMIT_REACHED, st', [Log Error ''MANAGER'']))"
  by (simp add: ReminderManager_create_def ScheduleManager_create_def)

lemma full_user:
  "length (get_set (userReminders (run_remind 0
      (replicate 25 (RCreate 1763975400000 True ''alice'' ''general'' ''tea'' ''in 5 minutes''))))
      ''alice'') = 25"
  by code_simp

lemma full_channel:
  "length (get_set (channelSchedules (run_schedule 0
      (replicate 20 (SCreate 1763975400000 True ''general'' ''tea'' ''every 2 hours'' ''alice''))))
      ''general'') = 20"
  by code_simp

theorem create_at_limit_witness:
  "maxRemindersPerUser \<le> length (get_set (userReminders (run_remind 0
      (replicate 25 (RCreate 1763975400000 True ''alice'' ''general'' ''tea'' ''in 5 minutes''))))
      ''alice'')
   \<and> maxSchedulesPerChannel \<le> length (get_set (channelSchedules (run_schedule 0
      (replicate 20 (SCreate 1763975400000 True ''general'' ''tea'' ''every 2 hours'' ''alice''))))
      ''general'')
   \<and> result_of (ReminderManager_create 0 1763975400000 True ''alice'' ''general'' ''tea'' ''no time''
     (run_remind 0
        (replicate 25 (RCreate 1763975400000 True ''alice'' ''general'' ''tea'' ''in 5 minutes''))))
     = Inl LIMIT_REACHED
   \<and> result_of (ScheduleManager_create 0 1763975400000 True ''general'' ''tea'' ''no time'' ''bob''
     (run_schedule 0
        (replicate 20 (SCreate 1763975400000 True ''general'' ''tea'' ''every 2 hours'' ''alice''))))
     = Inl LIMIT_REACHED"
  using create_at_limit [where tz = 0 and now = 1763975400000 and disk_ok = True
      and user = "''alice''" and channel = "''general''" and message = "''tea''"
      and timeString = "''no time''" and creator = "''bob''"
      and st = "run_remind 0
        (replicate 25 (RCreate 1763975400000 True ''alice'' ''general'' ''tea'' ''in 5 minutes''))"
      and st' = "run_schedule 0
        (replicate 20 (SCreate 1763975400000 True ''general'' ''tea'' ''every 2 hours'' ''alice''))"]
  by (simp add: full_user full_channel maxRemindersPerUser_def maxSchedulesPerChannel_def
      result_of_def)

subsection \<open>A save that fails\<close>

text \<open>
  Claim C7 as the specification states it (a failed save never makes \<^verbatim>\<open>create\<close> report a
  failure) does not hold in RemindBot: with a disk that fails, creating the first reminder
  of a new manager puts the reminder into both maps, advances the counter, and then
  reports the I/O error to the caller.
\<close>

theorem reminder_create_reports_save_failure:
  "ReminderManager_create 0 1763975400000 False ''alice'' ''general'' ''tea'' ''in 5 minutes''
     ReminderManager_new =
   (Inl IO_ERROR,
    \<lparr>reminders =
       [(1, \<lparr>timestamp = 1763975700000, interval = None, isRecurring = False, r_id = 1,
              userId = ''alice'', r_channelId = ''general'', r_message = ''tea'',
              r_createdAt = 1763975400000, triggered = False\<rparr>)],
     userReminders = [(''alice'', [1])], nextId_remind = 2\<rparr>,
    [Log Error ''STORAGE'', Log Error ''MANAGER''])"
  by code_simp

text \<open>
  Claim C7, amended. In ScheduleBot a save that fails is logged and swallowed: with a
  failing disk \<^verbatim>\<open>create\<close> and \<^verbatim>\<open>delete\<close> give the same result and leave the same store
  as with a working disk, and when they succeed the effects hold the error line of the
  storage component. In RemindBot \<^verbatim>\<open>save\<close> logs the failure and throws it again: a
  \<^verbatim>\<open>create\<close> or \<^verbatim>\<open>delete\<close> that succeeds with a working disk reports the I/O error with a
  failing disk, after the same change of the store and with the error line logged; a
  call that fails before the store is changed fails in the same way with either disk.
\<close>

theorem save_failure_handling:
  "result_of (ScheduleManager_create tz now False channel message timeString creator st)
     = result_of (ScheduleManager_create tz now True channel message timeString creator st)
   \<and> store_of (ScheduleManager_create tz now False channel message timeString creator st)
     = store_of (ScheduleManager_create tz now True channel message timeString creator st)
   \<and> (\<forall>sch. result_of (ScheduleManager_create tz now False channel message timeString creator st)
          = Inr sch \<longrightarrow>
        Log Error ''STORAGE''
          \<in> set (effects_of (ScheduleManager_create tz now False channel message timeString creator st)))
   \<and> result_of (ScheduleManager_delete False scheduleId user st)
     = result_of (ScheduleManager_delete True scheduleId user st)
   \<and> store_of (ScheduleManager_delete False scheduleId user st)
     = store_of (ScheduleManager_delete True scheduleId user st)
   \<and> (\<forall>sch. result_of (ScheduleManager_delete False scheduleId user st) = Inr sch \<longrightarrow>
        Log Error ''STORAGE'' \<in> set (effects_of (ScheduleManager_delete False scheduleId user st)))
   \<and> (\<forall>rem. result_of (ReminderManager_create tz now True user channel message timeString rst)
          = Inr rem \<longrightarrow>
        result_of (ReminderManager_create tz now False user channel message timeString rst)
          = Inl IO_ERROR
        \<and> store_of (ReminderManager_create tz now False user channel message timeString rst)
          = store_of (ReminderManager_create tz now True user channel message timeString rst)
        \<and> store_of (ReminderManager_create tz now False user channel message timeString rst) \<noteq> rst
        \<and> Log Error ''STORAGE''
          \<in> set (effects_of (ReminderManager_create tz now False user channel message timeString rst)))
   \<and> (\<forall>e. result_of (ReminderManager_create tz now True user channel message timeString rst)
          = Inl e \<longrightarrow>
        ReminderManager_create tz now False user channel message timeString rst
          = ReminderManager_create tz now True user channel message timeString rst)
   \<and> (\<forall>rem. result_of (ReminderManager_delete True reminderId user rst) = Inr rem \<longrightarrow>
        result_of (ReminderManager_delete False reminderId user rst) = Inl IO_ERROR
        \<and> store_of (ReminderManager_delete False reminderId user rst)
          = store_of (ReminderManager_delete True reminderId user rst)
        \<and> Log Error ''STORAGE'' \<in> set (effects_of (ReminderManager_delete False reminderId user rst)))
   \<and> (\<forall>e. result_of (ReminderManager_delete True reminderId user rst) = Inl e \<longrightarrow>
        ReminderManager_delete False reminderId user rst
          = ReminderManager_delete True reminderId user rst)"
proof -
  have sc: "result_of (ScheduleManager_create tz now False channel message timeString creator st)
     = result_of (ScheduleManager_create tz now True channel message timeString creator st)"
    "store_of (ScheduleManager_create tz now False channel message timeString creator st)
     = store_of (ScheduleManager_create tz now True channel message timeString creator st)"
    "\<forall>sch. result_of (ScheduleManager_create tz now False channel message timeString creator st)
          = Inr sch \<longrightarrow>
        Log Error ''STORAGE''
          \<in> set (effects_of (ScheduleManager_create tz now False channel message timeString creator st))"
    by (auto simp: ScheduleManager_create_def ScheduleManager_save_def result_of_def store_of_def
        effects_of_def Let_def split: sum.splits)
  have sd: "result_of (ScheduleManager_delete False scheduleId user st)
     = result_of (ScheduleManager_delete True scheduleId user st)"
    "store_of (ScheduleManager_delete False scheduleId user st)
     = store_of (ScheduleManager_delete True scheduleId user st)"
    "\<forall>sch. result_of (ScheduleManager_delete False scheduleId user st) = Inr sch \<longrightarrow>
        Log Error ''STORAGE'' \<in> set (effects_of (ScheduleManager_delete False scheduleId user st))"
    by (auto simp: ScheduleManager_delete_def ScheduleManager_save_def result_of_def store_of_def
        effects_of_def Let_def split: option.splits)
  have rc: "\<forall>rem. result_of (ReminderManager_create tz now True user channel message timeString rst)
          = Inr rem \<longrightarrow>
        result_of (ReminderManager_create tz now False user channel message timeString rst)
          = Inl IO_ERROR
        \<and> store_of (ReminderManager_create tz now False user channel message timeString rst)
          = store_of (ReminderManager_create tz now True user channel message timeString rst)
        \<and> store_of (ReminderManager_create tz now False user channel message timeString rst) \<noteq> rst
        \<and> Log Error ''STORAGE''
          \<in> set (effects_of (ReminderManager_create tz now False user channel message timeString rst))"
    "\<forall>e. result_of (ReminderManager_create tz now True user channel message timeString rst)
          = Inl e \<longrightarrow>
        ReminderManager_create tz now False user channel message timeString rst
          = ReminderManager_create tz now True user channel message timeString rst"
    by (auto simp: ReminderManager_create_def ReminderManager_save_def result_of_def store_of_def
        effects_of_def Let_def split: sum.splits if_splits
        dest: arg_cong [where f = nextId_remind])
  have rd: "\<forall>rem. result_of (ReminderManager_delete True reminderId user rst) = Inr rem \<longrightarrow>
        result_of (ReminderManager_delete False reminderId user rst) = Inl IO_ERROR
        \<and> store_of (ReminderManager_delete False reminderId user rst)
          = store_of (ReminderManager_delete True reminderId user rst)
        \<and> Log Error ''STORAGE'' \<in> set (effects_of (ReminderManager_delete False reminderId user rst))"
    "\<forall>e. result_of (ReminderManager_delete True reminderId user rst) = Inl e \<longrightarrow>
        ReminderManager_delete False reminderId user rst
          = ReminderManager_delete True reminderId user rst"
    by (auto simp: ReminderManager_delete_def ReminderManager_save_def result_of_def store_of_def
        effects_of_def Let_def split: option.splits if_splits)
  from sc sd rc rd show ?thesis by blast
qed

lemma save_failure_examples:
  "result_of (ScheduleManager_create 0 1763975400000 False ''general'' ''tea'' ''every 2 hours''
      ''alice''
      (run_schedule 0 [SCreate 1763975400000 True ''general'' ''tea'' ''every 2 hours'' ''alice'']))
     = Inr \<lparr>kind = Interval 7200000, nextRun = 1763982600000, s_id = 2,
            s_channelId = ''general'', s_message = ''tea'', createdBy = ''alice'',
            s_createdAt = 1763975400000, enabled = True\<rparr>"
  "result_of (ScheduleManager_delete False 1 ''alice''
      (run_schedule 0 [SCreate 1763975400000 True ''general'' ''tea'' ''every 2 hours'' ''alice'']))
     = Inr \<lparr>kind = Interval 7200000, nextRun = 1763982600000, s_id = 1,
            s_channelId = ''general'', s_message = ''tea'', createdBy = ''alice'',
            s_createdAt = 1763975400000, enabled = True\<rparr>"
  "result_of (ReminderManager_create 0 1763975400000 True ''alice'' ''general'' ''tea''
      ''every 2 hours''
      (run_remind 0 [RCreate 1763975400000 True ''alice'' ''general'' ''tea'' ''every 2 hours'']))
     = Inr \<lparr>timestamp = 1763982600000, interval = Some 7200000, isRecurring = True, r_id = 2,
            userId = ''alice'', r_channelId = ''general'', r_message = ''tea'',
            r_createdAt = 1763975400000, triggered = False\<rparr>"
  "result_of (ReminderManager_delete True 1 ''alice''
      (run_remind 0 [RCreate 1763975400000 True ''alice'' ''general'' ''tea'' ''every 2 hours'']))
     = Inr \<lparr>timestamp = 1763982600000, interval = Some 7200000, isRecurring = True, r_id = 1,
            userId = ''alice'', r_channelId = ''general'', r_message = ''tea'',
            r_createdAt = 1763975400000, triggered = False\<rparr>"
  by code_simp+

theorem save_failure_handling_witness:
  "Log Error ''STORAGE''
     \<in> set (effects_of (ScheduleManager_create 0 1763975400000 False ''general'' ''tea''
         ''every 2 hours'' ''alice''
         (run_schedule 0
            [SCreate 1763975400000 True ''general'' ''tea'' ''every 2 hours'' ''alice''])))
   \<and> Log Error ''STORAGE''
     \<in> set (effects_of (ScheduleManager_delete False 1 ''alice''
         (run_schedule 0
            [SCreate 1763975400000 True ''general'' ''tea'' ''every 2 hours'' ''alice''])))
   \<and> result_of (ReminderManager_create 0 1763975400000 False ''alice'' ''general'' ''tea''
        ''every 2 hours''
        (run_remind 0 [RCreate 1763975400000 True ''alice'' ''general'' ''tea'' ''every 2 hours'']))
     = Inl IO_ERROR
   \<and> result_of (ReminderManager_delete False 1 ''alice''
        (run_remind 0 [RCreate 1763975400000 True ''alice'' ''general'' ''tea'' ''every 2 hours'']))
     = Inl IO_ERROR"
  using save_failure_handling [where tz = 0 and now = 1763975400000
      and user = "''alice''" and channel = "''general''" and message = "''tea''"
      and timeString = "''every 2 hours''" and creator = "''alice''"
      and scheduleId = 1 and reminderId = 1
      and st = "run_schedule 0
          [SCreate 1763975400000 True ''general'' ''tea'' ''every 2 hours'' ''alice'']"
      and rst = "run_remind 0
          [RCreate 1763975400000 True ''alice'' ''general'' ''tea'' ''every 2 hours'']"]
  unfolding save_failure_examples by simp

subsection \<open>Scans that do not go through\<close>

text \<open>
  In RemindBot the debug line of the first loop of \<^verbatim>\<open>check\<close> ends the scan when a recurring
  reminder gets a timestamp outside of the Date range. On 24 November 2025 at 09:10 UTC
  a user creates \<^verbatim>\<open>in 5 minutes\<close>, \<^verbatim>\<open>every 99990000 days at 11pm\<close> and \<^verbatim>\<open>every 2 hours\<close>. The
  scan at 23:00:05 marks the first reminder, changes the timestamp of the second one and
  ends with a \<^verbatim>\<open>RangeError\<close>: no event is emitted, the first reminder stays in the store,
  the third one is not looked at. The scan thirty seconds later reschedules the third
  reminder and sweeps the first one away; no event is ever emitted for it.
\<close>

lemma range_error_ends_scan:
  "result_of (ReminderManager_check 1764025205000 True
     (run_remind 0
        [RCreate 1763975400000 True ''alice'' ''general'' ''pills'' ''in 5 minutes'',
         RCreate 1763975400000 True ''alice'' ''general'' ''era'' ''every 99990000 days at 11pm'',
         RCreate 1763975400000 True ''alice'' ''general'' ''tea'' ''every 2 hours''])) =
     Inl RANGE_ERROR
   \<and> effects_of (ReminderManager_check 1764025205000 True
     (run_remind 0
        [RCreate 1763975400000 True ''alice'' ''general'' ''pills'' ''in 5 minutes'',
         RCreate 1763975400000 True ''alice'' ''general'' ''era'' ''every 99990000 days at 11pm'',
         RCreate 1763975400000 True ''alice'' ''general'' ''tea'' ''every 2 hours''])) = []
   \<and> map (\<lambda>(i, rem). (i, timestamp rem, triggered rem))
       (reminders (run_remind 0
        [RCreate 1763975400000 True ''alice'' ''general'' ''pills'' ''in 5 minutes'',
         RCreate 1763975400000 True ''alice'' ''general'' ''era'' ''every 99990000 days at 11pm'',
         RCreate 1763975400000 True ''alice'' ''general'' ''tea'' ''every 2 hours'',
         RCheck 1764025205000 True])) =
     [(1, 1763975700000, True), (2, 8640900025205000, False), (3, 1763982600000, False)]
   \<and> map r_id (projr (result_of (ReminderManager_check 1764025235000 True
       (run_remind 0
        [RCreate 1763975400000 True ''alice'' ''general'' ''pills'' ''in 5 minutes'',
         RCreate 1763975400000 True ''alice'' ''general'' ''era'' ''every 99990000 days at 11pm'',
         RCreate 1763975400000 True ''alice'' ''general'' ''tea'' ''every 2 hours'',
         RCheck 1764025205000 True])))) = [3]
   \<and> map (\<lambda>(i, rem). (i, timestamp rem, triggered rem))
       (reminders (run_remind 0
        [RCreate 1763975400000 True ''alice'' ''general'' ''pills'' ''in 5 minutes'',
         RCreate 1763975400000 True ''alice'' ''general'' ''era'' ''every 99990000 days at 11pm'',
         RCreate 1763975400000 True ''alice'' ''general'' ''tea'' ''every 2 hours'',
         RCheck 1764025205000 True, RCheck 1764025235000 True])) =
     [(2, 8640900025205000, False), (3, 1764032435000, False)]
   \<and> triggers_for 1 (effects_of (ReminderManager_check 1764025235000 True
       (run_remind 0
        [RCreate 1763975400000 True ''alice'' ''general'' ''pills'' ''in 5 minutes'',
         RCreate 1763975400000 True ''alice'' ''general'' ''era'' ''every 99990000 days at 11pm'',
         RCreate 1763975400000 True ''alice'' ''general'' ''tea'' ''every 2 hours'',
         RCheck 1764025205000 True]))) = []"
  by code_simp

text \<open>
  Claim C2 (a scan that fires a due task reschedules it: a daily one by 24 h, a weekly one
  by 7 d, an interval one to the fire time plus the interval) fails in ScheduleBot when
  the delivery fails, although the comment above \<^verbatim>\<open>check\<close> wants the schedule state updated
  in that case too. On Monday 24 November 2025 at 09:10 UTC a channel gets the schedules
  \<^verbatim>\<open>daily 9am\<close>, \<^verbatim>\<open>weekly monday 9am\<close> and \<^verbatim>\<open>every 2 hours\<close>; all three are due at the scan of
  1 December, 09:00:05. When the deliveries succeed, the three next runs move by
  86400000 ms, by 604800000 ms, and to the time of the scan plus 7200000 ms. When the
  deliveries fail, nothing is sent and the three next runs stay where they were.
\<close>

theorem failed_delivery_skips_reschedule:
  "map (\<lambda>(i, sch). (i, nextRun sch))
     (schedules (run_schedule 0
        [SCreate 1763975400000 True ''general'' ''Good morning'' ''daily 9am'' ''bob'',
         SCreate 1763975400000 True ''general'' ''Report'' ''weekly monday 9am'' ''bob'',
         SCreate 1763975400000 True ''general'' ''Stretch'' ''every 2 hours'' ''bob''])) =
     [(1, 1764061200000), (2, 1764579600000), (3, 1763982600000)]
   \<and> map (\<lambda>(i, sch). (i, nextRun sch))
     (schedules (store_of (ScheduleManager_check 1764579605000
        \<lparr>date_string = ''12/1/2025'', time_string = ''9:00:05 AM'', day_string = ''Monday''\<rparr>
        (\<lambda>sch. True) True
        (run_schedule 0
          [SCreate 1763975400000 True ''general'' ''Good morning'' ''daily 9am'' ''bob'',
           SCreate 1763975400000 True ''general'' ''Report'' ''weekly monday 9am'' ''bob'',
           SCreate 1763975400000 True ''general'' ''Stretch'' ''every 2 hours'' ''bob''])))) =
     [(1, 1764061200000 + 86400000), (2, 1764579600000 + 604800000),
      (3, 1764579605000 + 7200000)]
   \<and> map (\<lambda>(i, sch). (i, nextRun sch))
     (schedules (store_of (ScheduleManager_check 1764579605000
        \<lparr>date_string = ''12/1/2025'', time_string = ''9:00:05 AM'', day_string = ''Monday''\<rparr>
        (\<lambda>sch. False) True
        (run_schedule 0
          [SCreate 1763975400000 True ''general'' ''Good morning'' ''daily 9am'' ''bob'',
           SCreate 1763975400000 True ''general'' ''Report'' ''weekly monday 9am'' ''bob'',
           SCreate 1763975400000 True ''general'' ''Stretch'' ''every 2 hours'' ''bob''])))) =
     [(1, 1764061200000), (2, 1764579600000), (3, 1763982600000)]
   \<and> filter (\<lambda>e. case e of Send i c m \<Rightarrow> True | _ \<Rightarrow> False)
       (effects_of (ScheduleManager_check 1764579605000
        \<lparr>date_string = ''12/1/2025'', time_string = ''9:00:05 AM'', day_string = ''Monday''\<rparr>
        (\<lambda>sch. False) True
        (run_schedule 0
          [SCreate 1763975400000 True ''general'' ''Good morning'' ''daily 9am'' ''bob'',
           SCreate 1763975400000 True ''general'' ''Report'' ''weekly monday 9am'' ''bob'',
           SCreate 1763975400000 True ''general'' ''Stretch'' ''every 2 hours'' ''bob'']))) = []"
  by code_simp

text \<open>
  Claim C3 (a scan delivers every due one-time task exactly once and removes it from both
  indexes, so that \<^verbatim>\<open>list\<close> no longer shows it) fails in both programs. In ScheduleBot a
  one-time schedule for 09:30 is still in both indexes after a scan at 10:10 whose
  delivery fails, nothing has been sent and \<^verbatim>\<open>list\<close> still shows it, although the comment
  above \<^verbatim>\<open>check\<close> wants the schedule state updated in that case too. In RemindBot a
  reminder set for \<^verbatim>\<open>in 5 minutes\<close> is removed by the scan that finds it due, but when the
  save of that scan fails the scan ends with the error before the event is emitted: the
  reminder is gone and has never been delivered.
\<close>

theorem one_time_task_kept_or_lost:
  "ScheduleManager_list ''general''
     (store_of (ScheduleManager_check 1763979000000
        \<lparr>date_string = ''11/24/2025'', time_string = ''10:10:00 AM'', day_string = ''Monday''\<rparr>
        (\<lambda>sch. False) True
        (run_schedule 0
           [SCreate 1763975400000 True ''general'' ''Meeting'' ''today 9:30'' ''bob''])))
     = [\<lparr>kind = Once, nextRun = 1763976600000, s_id = 1, s_channelId = ''general'',
          s_message = ''Meeting'', createdBy = ''bob'', s_createdAt = 1763975400000,
          enabled = True\<rparr>]
   \<and> map fst (schedules (store_of (ScheduleManager_check 1763979000000
        \<lparr>date_string = ''11/24/2025'', time_string = ''10:10:00 AM'', day_string = ''Monday''\<rparr>
        (\<lambda>sch. False) True
        (run_schedule 0
           [SCreate 1763975400000 True ''general'' ''Meeting'' ''today 9:30'' ''bob''])))) = [1]
   \<and> sends_for 1 (effects_of (ScheduleManager_check 1763979000000
        \<lparr>date_string = ''11/24/2025'', time_string = ''10:10:00 AM'', day_string = ''Monday''\<rparr>
        (\<lambda>sch. False) True
        (run_schedule 0
           [SCreate 1763975400000 True ''general'' ''Meeting'' ''today 9:30'' ''bob''])))
     = []
   \<and> map (\<lambda>(i, rem). (i, timestamp rem))
       (reminders (run_remind 0
          [RCreate 1763975400000 True ''alice'' ''general'' ''pills'' ''in 5 minutes''])) =
     [(1, 1763975700000)]
   \<and> result_of (ReminderManager_check 1763975705000 False
        (run_remind 0
           [RCreate 1763975400000 True ''alice'' ''general'' ''pills'' ''in 5 minutes''])) =
     Inl IO_ERROR
   \<and> triggers_for 1 (effects_of (ReminderManager_check 1763975705000 False
        (run_remind 0
           [RCreate 1763975400000 True ''alice'' ''general'' ''pills'' ''in 5 minutes'']))) = []
   \<and> reminders (store_of (ReminderManager_check 1763975705000 False
        (run_remind 0
           [RCreate 1763975400000 True ''alice'' ''general'' ''pills'' ''in 5 minutes'']))) = []
   \<and> ReminderManager_list ''alice'' (store_of (ReminderManager_check 1763975705000 False
        (run_remind 0
           [RCreate 1763975400000 True ''alice'' ''general'' ''pills'' ''in 5 minutes'']))) = []"
  by code_simp

end
